theory Spec2Isabelle
  imports Main
begin

section \<open>The relational store (schema script)\<close>

text \<open>
  The tables of the schema script, one record per row type and one list of rows per
  table, in insertion order.  Columns that the script leaves nullable are options.
  Amounts of type \<open>decimal(10,2)\<close> are integers counting hundredths; \<open>datetime\<close>
  values are ticks of a clock.  The lookup tables (\<open>user_roles\<close>, \<open>order_status\<close>,
  \<open>payment_status\<close>, \<open>payment_methods\<close>) are lists of (identity, name) pairs.

  Integer columns hold unbounded integers, and two strings are equal when they are the
  same string.

  The script creates \<open>games\<close> without an \<open>image\<close> column while every statement of
  the server names one; the row type carries the column the server uses.
\<close>

type_synonym money = int
type_synonym timestamp = nat

record user_row =
  user_id :: int
  username :: string
  email :: string
  password :: string
  role_id :: "int option"

record game_row =
  game_id :: int
  title :: string
  description :: string
  price :: money
  genre :: string
  platform :: string
  image_col :: "string option"

record order_row =
  order_id :: int
  o_user_id :: "int option"
  order_date :: timestamp
  total_amount :: "money option"
  o_status_id :: "int option"

record payment_row =
  payment_id :: int
  p_order_id :: "int option"
  payment_date :: timestamp
  p_status_id :: "int option"
  p_method_id :: "int option"

record inventory_row =
  inv_game_id :: int
  stock_quantity :: int

record order_item_row =
  order_item_id :: int
  oi_order_id :: "int option"
  oi_game_id :: "int option"
  oi_quantity :: int
  oi_price :: money

record database =
  user_roles :: "(int \<times> string) list"
  users :: "user_row list"
  games :: "game_row list"
  order_status :: "(int \<times> string) list"
  orders :: "order_row list"
  payment_status :: "(int \<times> string) list"
  payment_methods :: "(int \<times> string) list"
  payments :: "payment_row list"
  inventory :: "inventory_row list"
  order_items :: "order_item_row list"
  next_user_id :: int
  next_game_id :: int
  next_order_id :: int
  next_payment_id :: int
  next_order_item_id :: int

text \<open>The rows the script inserts into the four lookup tables (identity seed 1, step 1).\<close>

definition seed_user_roles :: "(int \<times> string) list" where
  "seed_user_roles = [(1, ''customer''), (2, ''admin'')]"

definition seed_order_status :: "(int \<times> string) list" where
  "seed_order_status = [(1, ''pending''), (2, ''completed''), (3, ''cancelled'')]"

definition seed_payment_status :: "(int \<times> string) list" where
  "seed_payment_status = [(1, ''paid''), (2, ''failed''), (3, ''pending'')]"

definition seed_payment_methods :: "(int \<times> string) list" where
  "seed_payment_methods = [(1, ''credit_card''), (2, ''bank_transfer'')]"

definition empty_db :: database where
  "empty_db = \<lparr> user_roles = seed_user_roles, users = [], games = [],
     order_status = seed_order_status, orders = [],
     payment_status = seed_payment_status, payment_methods = seed_payment_methods,
     payments = [], inventory = [], order_items = [],
     next_user_id = 1, next_game_id = 1, next_order_id = 1,
     next_payment_id = 1, next_order_item_id = 1 \<rparr>"

subsection \<open>Statements, errors and transactions\<close>

text \<open>
  A statement either succeeds or raises; in both cases it hands back the store, because
  an identity value drawn by a failed or rolled back insert is not given back.  The
  errors are the ones the schema and the driver can raise on the paths modelled here.
\<close>

datatype store_error =
    SyntaxError
  | ForeignKeyViolation string
  | UniqueViolation string
  | DuplicateParameter string
  | InvalidParameter string

datatype 'a result = Ok 'a database | Err store_error database

fun bind :: "'a result \<Rightarrow> ('a \<Rightarrow> database \<Rightarrow> 'b result) \<Rightarrow> 'b result" where
  "bind (Ok a db) f = f a db"
| "bind (Err e db) f = Err e db"

text \<open>Where a handler leaves the \<open>sql.Transaction\<close> object it created.\<close>

datatype txn = NotBegun | Open | Committed | RolledBack

text \<open>
  \<open>transaction.rollback()\<close>: every table is as it was at \<open>begin\<close>; only the identity
  counters keep the values they reached.
\<close>

definition rollback :: "database \<Rightarrow> database \<Rightarrow> database" where
  "rollback db0 db1 = db0 \<lparr> next_user_id := next_user_id db1,
     next_game_id := next_game_id db1, next_order_id := next_order_id db1,
     next_payment_id := next_payment_id db1,
     next_order_item_id := next_order_item_id db1 \<rparr>"

text \<open>A foreign key column accepts NULL and every key of the referenced table.\<close>

definition fk_ok :: "int option \<Rightarrow> int list \<Rightarrow> bool" where
  "fk_ok v keys = (case v of None \<Rightarrow> True | Some k \<Rightarrow> k \<in> set keys)"

subsection \<open>HTTP responses\<close>

datatype json =
    Msg bool string
  | OrderCreated int
  | ErrorMessage store_error
  | LoginOk string int

record response =
  status :: nat
  body :: json

text \<open>
  \<open>Msg s m\<close> is \<open>{success: s, message: m}\<close>, \<open>OrderCreated n\<close> is
  \<open>{success: true, orderId: n}\<close>, \<open>ErrorMessage e\<close> is \<open>{error: err.message}\<close> for the
  raised error \<open>e\<close>, \<open>LoginOk t n\<close> is \<open>{success: true, userType: t, userId: n}\<close>.
  \<open>res.json\<close> without \<open>res.status\<close> answers with status 200.
\<close>

definition reply :: "nat \<Rightarrow> json \<Rightarrow> response" where
  "reply s b = \<lparr> status = s, body = b \<rparr>"

subsection \<open>JavaScript truthiness of request fields\<close>

text \<open>
  A field of the JSON body is absent (\<open>None\<close>) or present.  \<open>!v\<close> holds for an absent
  field, for the number 0 and for the empty string; it does not hold for an array, empty
  or not, so for the cart it holds only when the field is absent.
\<close>

definition falsy_num :: "int option \<Rightarrow> bool" where
  "falsy_num v = (v = None \<or> v = Some 0)"

definition falsy_str :: "string option \<Rightarrow> bool" where
  "falsy_str v = (v = None \<or> v = Some [])"

definition or_null :: "int option \<Rightarrow> int option" where
  "or_null v = (if falsy_num v then None else v)"

section \<open>Checkout: POST /api/checkout\<close>

record cart_item =
  ci_game_id :: int
  ci_quantity :: int
  ci_price :: money

record checkout_req =
  items :: "cart_item list option"
  totalAmount :: "money option"
  paymentMethodId :: "int option"
  userId :: "int option"

text \<open>
  \<open>SELECT game_id FROM games WHERE game_id IN (...)\<close> with the identifiers joined by
  commas into the statement text.  An empty list gives \<open>IN ()\<close>, which the server
  refuses as a syntax error.  The statement runs on the pool, outside the transaction.
\<close>

definition select_game_ids_in :: "int list \<Rightarrow> database \<Rightarrow> int list result" where
  "select_game_ids_in gameIds db =
     (if gameIds = [] then Err SyntaxError db
      else Ok (filter (\<lambda>g. g \<in> set gameIds) (map game_id (games db))) db)"

text \<open>\<open>INSERT INTO orders ...; SELECT SCOPE_IDENTITY() AS orderId\<close>.\<close>

definition insert_order ::
  "timestamp \<Rightarrow> int option \<Rightarrow> money option \<Rightarrow> int \<Rightarrow> database \<Rightarrow> int result" where
  "insert_order now uid amount st db =
     (let oid = next_order_id db; db1 = db \<lparr> next_order_id := oid + 1 \<rparr> in
      if \<not> fk_ok uid (map user_id (users db)) then
        Err (ForeignKeyViolation ''orders.user_id'') db1
      else if \<not> fk_ok (Some st) (map fst (order_status db)) then
        Err (ForeignKeyViolation ''orders.status_id'') db1
      else Ok oid (db1 \<lparr> orders := orders db @
             [\<lparr> order_id = oid, o_user_id = uid, order_date = now,
                total_amount = amount, o_status_id = Some st \<rparr>] \<rparr>))"

text \<open>
  The trigger \<open>trg_update_inventory_after_order\<close>: after an insert into
  \<open>order_items\<close>, every inventory row of the inserted row's game loses the inserted
  quantity.  There is no floor.
\<close>

definition trg_update_inventory_after_order :: "order_item_row \<Rightarrow> database \<Rightarrow> database" where
  "trg_update_inventory_after_order i db =
     db \<lparr> inventory := map (\<lambda>r. if Some (inv_game_id r) = oi_game_id i
                                 then r \<lparr> stock_quantity := stock_quantity r - oi_quantity i \<rparr>
                                 else r) (inventory db) \<rparr>"

definition item_row :: "int \<Rightarrow> int \<Rightarrow> cart_item \<Rightarrow> order_item_row" where
  "item_row iid oid it =
     \<lparr> order_item_id = iid, oi_order_id = Some oid, oi_game_id = Some (ci_game_id it),
       oi_quantity = ci_quantity it, oi_price = ci_price it \<rparr>"

definition insert_order_item :: "int \<Rightarrow> cart_item \<Rightarrow> database \<Rightarrow> unit result" where
  "insert_order_item oid it db =
     (let iid = next_order_item_id db; db1 = db \<lparr> next_order_item_id := iid + 1 \<rparr>;
          row = item_row iid oid it in
      if \<not> fk_ok (Some oid) (map order_id (orders db)) then
        Err (ForeignKeyViolation ''order_items.order_id'') db1
      else if \<not> fk_ok (Some (ci_game_id it)) (map game_id (games db)) then
        Err (ForeignKeyViolation ''order_items.game_id'') db1
      else Ok () (trg_update_inventory_after_order row
                    (db1 \<lparr> order_items := order_items db @ [row] \<rparr>)))"

text \<open>
  The loop over the cart.  All its statements go through the one request object \<open>tr\<close>,
  so from the second line on \<open>tr.input('order_id_item', ...)\<close> names a parameter that is
  already declared.  What the driver does then is not part of this repository: the
  flag \<open>strict\<close> says whether it raises (\<open>True\<close>) or replaces the value (\<open>False\<close>);
  \<open>declared\<close> says whether the loop's parameters are declared already.
\<close>

fun insert_order_items ::
  "bool \<Rightarrow> bool \<Rightarrow> int \<Rightarrow> cart_item list \<Rightarrow> database \<Rightarrow> unit result" where
  "insert_order_items strict declared oid [] db = Ok () db"
| "insert_order_items strict declared oid (it # its) db =
     (if strict \<and> declared then Err (DuplicateParameter ''order_id_item'') db
      else bind (insert_order_item oid it db)
             (\<lambda>_ db1. insert_order_items strict True oid its db1))"

definition insert_payment ::
  "timestamp \<Rightarrow> int \<Rightarrow> int \<Rightarrow> int option \<Rightarrow> database \<Rightarrow> unit result" where
  "insert_payment now oid st mid db =
     (let pid = next_payment_id db; db1 = db \<lparr> next_payment_id := pid + 1 \<rparr> in
      if \<not> fk_ok (Some oid) (map order_id (orders db)) then
        Err (ForeignKeyViolation ''payments.order_id'') db1
      else if \<not> fk_ok (Some st) (map fst (payment_status db)) then
        Err (ForeignKeyViolation ''payments.status_id'') db1
      else if \<not> fk_ok mid (map fst (payment_methods db)) then
        Err (ForeignKeyViolation ''payments.method_id'') db1
      else Ok () (db1 \<lparr> payments := payments db @
             [\<lparr> payment_id = pid, p_order_id = Some oid, payment_date = now,
                p_status_id = Some st, p_method_id = mid \<rparr>] \<rparr>))"

text \<open>The three numbered steps of the handler, inside the transaction.\<close>

definition checkout_writes ::
  "bool \<Rightarrow> timestamp \<Rightarrow> checkout_req \<Rightarrow> cart_item list \<Rightarrow> database \<Rightarrow> int result" where
  "checkout_writes strict now req its db =
     bind (insert_order now (or_null (userId req)) (totalAmount req) 1 db)
       (\<lambda>orderId db1.
          bind (insert_order_items strict False orderId its db1)
            (\<lambda>_ db2.
               bind (insert_payment now orderId 1 (paymentMethodId req) db2)
                 (\<lambda>_ db3. Ok orderId db3)))"

text \<open>
  The handler.  It answers 400 before \<open>transaction.begin()\<close> when a field is missing.
  After \<open>begin\<close> it compares the number of catalogue rows found with the number of cart
  lines and, when they differ, answers 400 and returns: the transaction is neither
  committed nor rolled back there.  Every raised error reaches the \<open>catch\<close> block, which
  rolls back and answers 500 with the error's own message.
\<close>

definition checkout ::
  "bool \<Rightarrow> timestamp \<Rightarrow> database \<Rightarrow> checkout_req \<Rightarrow> response \<times> database \<times> txn" where
  "checkout strict now db req =
     (case items req of
        None \<Rightarrow> (reply 400 (Msg False ''Missing required fields.''), db, NotBegun)
      | Some its \<Rightarrow>
          if falsy_num (totalAmount req) \<or> falsy_num (paymentMethodId req)
          then (reply 400 (Msg False ''Missing required fields.''), db, NotBegun)
          else
            (let gameIds = map ci_game_id its in
             (case select_game_ids_in gameIds db of
                Err e db1 \<Rightarrow> (reply 500 (ErrorMessage e), rollback db db1, RolledBack)
              | Ok recordset db1 \<Rightarrow>
                  (if length recordset \<noteq> length gameIds
                   then (reply 400 (Msg False ''One or more game IDs are invalid.''), db1, Open)
                   else
                     (case checkout_writes strict now req its db1 of
                        Err e db2 \<Rightarrow>
                          (reply 500 (ErrorMessage e), rollback db db2, RolledBack)
                      | Ok orderId db2 \<Rightarrow>
                          (reply 200 (OrderCreated orderId), db2, Committed))))))"

text \<open>The stock of a game: the \<open>stock_quantity\<close> of its inventory row, if it has one.\<close>

definition stock_of :: "database \<Rightarrow> int \<Rightarrow> int option" where
  "stock_of db g = map_of (map (\<lambda>r. (inv_game_id r, stock_quantity r)) (inventory db)) g"

section \<open>Catalogue administration: POST /api/games\<close>

text \<open>
  The routes of this section and the next two are mounted behind \<open>validateAdmin\<close>;
  the definitions are the handlers themselves.  The multipart fields are strings;
  \<open>upload\<close> is the stored file's name when a file came with the request.
\<close>

record game_req =
  x_request_id :: "string option"
  g_title :: "string option"
  g_description :: "string option"
  g_price :: "string option"
  g_genre :: "string option"
  g_platform :: "string option"
  upload :: "string option"

text \<open>The process-local set of request identifiers, next to the store.\<close>

record server =
  store :: database
  activeRequests :: "string set"

text \<open>The value of a field that is known to be truthy.\<close>

definition text_of :: "string option \<Rightarrow> string" where
  "text_of v = (case v of None \<Rightarrow> [] | Some s \<Rightarrow> s)"

text \<open>\<open>req.headers['x-request-id'] || uuidv4()\<close>; \<open>uuid\<close> is the value \<open>uuidv4()\<close> draws.\<close>

definition request_id :: "string \<Rightarrow> game_req \<Rightarrow> string" where
  "request_id uuid req = (if falsy_str (x_request_id req) then uuid else text_of (x_request_id req))"

text \<open>
  The insert binds \<open>price\<close> as \<open>sql.Decimal(10, 2)\<close>.  The driver's conversion of the
  submitted text is the parameter \<open>to_decimal\<close>: \<open>None\<close> when it refuses the text, and
  then the statement is never sent.
\<close>

definition insert_game ::
  "(string \<Rightarrow> money option) \<Rightarrow> game_req \<Rightarrow> database \<Rightarrow> unit result" where
  "insert_game to_decimal req db =
     (case to_decimal (text_of (g_price req)) of
        None \<Rightarrow> Err (InvalidParameter ''price'') db
      | Some p \<Rightarrow>
          Ok () (db \<lparr> next_game_id := next_game_id db + 1,
                     games := games db @
                       [\<lparr> game_id = next_game_id db, title = text_of (g_title req),
                          description = text_of (g_description req), price = p,
                          genre = text_of (g_genre req), platform = text_of (g_platform req),
                          image_col = upload req \<rparr>] \<rparr>))"

text \<open>The body of the \<open>try\<close> block with its \<open>catch\<close>: one transaction.\<close>

definition add_game ::
  "(string \<Rightarrow> money option) \<Rightarrow> database \<Rightarrow> game_req \<Rightarrow> response \<times> database \<times> txn" where
  "add_game to_decimal db req =
     (if falsy_str (g_title req) \<or> falsy_str (g_description req) \<or> falsy_str (g_price req)
         \<or> falsy_str (g_genre req) \<or> falsy_str (g_platform req) \<or> falsy_str (upload req)
      then (reply 400 (Msg False ''All fields are required, including an image.''),
            rollback db db, RolledBack)
      else if \<exists>g \<in> set (games db). title g = text_of (g_title req)
      then (reply 400 (Msg False ''Game with this title already exists.''),
            rollback db db, RolledBack)
      else
        (case insert_game to_decimal req db of
           Err e db1 \<Rightarrow> (reply 500 (Msg False ''Failed to add game.''), rollback db db1, RolledBack)
         | Ok u db1 \<Rightarrow> (reply 200 (Msg True ''Game added successfully.''), db1, Committed)))"

text \<open>
  The handler in two parts, since other requests are served between them: the part up
  to \<open>activeRequests.add\<close>, which runs without interruption, and the transaction with
  the \<open>finally\<close> block.  \<open>post_games\<close> is one request served alone.
\<close>

datatype admission = Rejected response | Admitted string server

definition post_games_enter :: "string \<Rightarrow> server \<Rightarrow> game_req \<Rightarrow> admission" where
  "post_games_enter uuid srv req =
     (let requestId = request_id uuid req in
      if requestId \<in> activeRequests srv
      then Rejected (reply 400 (Msg False ''Duplicate request detected.''))
      else Admitted requestId (srv \<lparr> activeRequests := insert requestId (activeRequests srv) \<rparr>))"

definition post_games_run ::
  "(string \<Rightarrow> money option) \<Rightarrow> string \<Rightarrow> server \<Rightarrow> game_req \<Rightarrow> response \<times> server" where
  "post_games_run to_decimal requestId srv req =
     (case add_game to_decimal (store srv) req of
        (resp, db1, t) \<Rightarrow>
          (resp, srv \<lparr> store := db1, activeRequests := activeRequests srv - {requestId} \<rparr>))"

definition post_games ::
  "(string \<Rightarrow> money option) \<Rightarrow> string \<Rightarrow> server \<Rightarrow> game_req \<Rightarrow> response \<times> server" where
  "post_games to_decimal uuid srv req =
     (case post_games_enter uuid srv req of
        Rejected resp \<Rightarrow> (resp, srv)
      | Admitted requestId srv1 \<Rightarrow> post_games_run to_decimal requestId srv1 req)"

section \<open>Deleting a game: DELETE /api/games/:id\<close>

definition delete_order_items_of :: "int \<Rightarrow> database \<Rightarrow> unit result" where
  "delete_order_items_of gid db =
     Ok () (db \<lparr> order_items := filter (\<lambda>oi. oi_game_id oi \<noteq> Some gid) (order_items db) \<rparr>)"

text \<open>
  \<open>DELETE FROM games WHERE game_id = @game_id\<close>, answering the number of rows it
  removed.  Neither foreign key onto \<open>games\<close> cascades, so the statement raises while an
  \<open>inventory\<close> or \<open>order_items\<close> row still references the game.
\<close>

definition delete_from_games :: "int \<Rightarrow> database \<Rightarrow> nat result" where
  "delete_from_games gid db =
     (if gid \<notin> set (map game_id (games db)) then Ok 0 db
      else if gid \<in> set (map inv_game_id (inventory db))
      then Err (ForeignKeyViolation ''inventory.game_id'') db
      else if Some gid \<in> set (map oi_game_id (order_items db))
      then Err (ForeignKeyViolation ''order_items.game_id'') db
      else Ok (length (filter (\<lambda>g. game_id g = gid) (games db)))
              (db \<lparr> games := filter (\<lambda>g. game_id g \<noteq> gid) (games db) \<rparr>))"

definition delete_game :: "database \<Rightarrow> int \<Rightarrow> response \<times> database \<times> txn" where
  "delete_game db gid =
     (case bind (delete_order_items_of gid db) (\<lambda>u db1. delete_from_games gid db1) of
        Err e db2 \<Rightarrow> (reply 500 (Msg False ''Failed to delete game.''), rollback db db2, RolledBack)
      | Ok n db2 \<Rightarrow>
          if n = 0
          then (reply 404 (Msg False ''Game not found.''), rollback db db2, RolledBack)
          else (reply 200 (Msg True ''Game deleted successfully.''), db2, Committed))"

section \<open>The order report: GET /api/orders\<close>

record report_row =
  r_order_id :: int
  r_order_date :: timestamp
  r_total_amount :: "money option"
  r_order_status :: "string option"
  r_customer_name :: "string option"
  r_order_item_id :: "int option"
  r_game_title :: string
  r_quantity :: "int option"
  r_price :: "money option"

definition status_name_of :: "database \<Rightarrow> int option \<Rightarrow> string option" where
  "status_name_of db v = (case v of None \<Rightarrow> None | Some k \<Rightarrow> map_of (order_status db) k)"

definition username_of :: "database \<Rightarrow> int option \<Rightarrow> string option" where
  "username_of db v =
     (case v of None \<Rightarrow> None
      | Some k \<Rightarrow> map_option username (find (\<lambda>u. user_id u = k) (users db)))"

definition title_of :: "database \<Rightarrow> int option \<Rightarrow> string option" where
  "title_of db v =
     (case v of None \<Rightarrow> None
      | Some k \<Rightarrow> map_option title (find (\<lambda>g. game_id g = k) (games db)))"

text \<open>\<open>ISNULL(g.title, 'Deleted Game')\<close>.\<close>

definition isnull_title :: "string option \<Rightarrow> string" where
  "isnull_title v = (case v of None \<Rightarrow> ''Deleted Game'' | Some t \<Rightarrow> t)"

text \<open>
  The rows the chain of left joins yields for one order: one per line item of the order,
  or a single row with empty item columns when it has none.
\<close>

definition order_rows :: "database \<Rightarrow> order_row \<Rightarrow> report_row list" where
  "order_rows db ord =
     (let its = filter (\<lambda>oi. oi_order_id oi = Some (order_id ord)) (order_items db) in
      if its = [] then
        [\<lparr> r_order_id = order_id ord, r_order_date = order_date ord,
           r_total_amount = total_amount ord,
           r_order_status = status_name_of db (o_status_id ord),
           r_customer_name = username_of db (o_user_id ord),
           r_order_item_id = None, r_game_title = isnull_title None,
           r_quantity = None, r_price = None \<rparr>]
      else
        map (\<lambda>oi. \<lparr> r_order_id = order_id ord, r_order_date = order_date ord,
                    r_total_amount = total_amount ord,
                    r_order_status = status_name_of db (o_status_id ord),
                    r_customer_name = username_of db (o_user_id ord),
                    r_order_item_id = Some (order_item_id oi),
                    r_game_title = isnull_title (title_of db (oi_game_id oi)),
                    r_quantity = Some (oi_quantity oi), r_price = Some (oi_price oi) \<rparr>) its)"

text \<open>\<open>ORDER BY o.order_date DESC\<close>; rows of equal date keep some order.\<close>

definition get_orders :: "database \<Rightarrow> report_row list" where
  "get_orders db = rev (sort_key r_order_date (concat (map (order_rows db) (orders db))))"

section \<open>Accounts: POST /api/register and POST /api/login\<close>

record register_req =
  r_username :: "string option"
  r_email :: "string option"
  r_password :: "string option"
  r_role :: "string option"

definition insert_user ::
  "string \<Rightarrow> string \<Rightarrow> string \<Rightarrow> int \<Rightarrow> database \<Rightarrow> unit result" where
  "insert_user name mail hashed rid db =
     (let uid = next_user_id db; db1 = db \<lparr> next_user_id := uid + 1 \<rparr> in
      if mail \<in> set (map email (users db)) then Err (UniqueViolation ''users.email'') db1
      else if \<not> fk_ok (Some rid) (map fst (user_roles db)) then
        Err (ForeignKeyViolation ''users.role_id'') db1
      else Ok () (db1 \<lparr> users := users db @
             [\<lparr> user_id = uid, username = name, email = mail, password = hashed,
                role_id = Some rid \<rparr>] \<rparr>))"

text \<open>
  \<open>hash\<close> stands for \<open>bcrypt.hash(_, 10)\<close>.  Every answer but the one of the \<open>catch\<close>
  block goes out through \<open>res.json\<close> alone, that is with status 200.
\<close>

definition register ::
  "(string \<Rightarrow> string) \<Rightarrow> database \<Rightarrow> register_req \<Rightarrow> response \<times> database" where
  "register hash db req =
     (if falsy_str (r_username req) \<or> falsy_str (r_email req) \<or> falsy_str (r_password req)
         \<or> falsy_str (r_role req)
      then (reply 200 (Msg False ''All fields are required.''), db)
      else if text_of (r_email req) \<in> set (map email (users db))
      then (reply 200 (Msg False ''Email is already registered.''), db)
      else
        let hashedPassword = hash (text_of (r_password req));
            roleId = (if text_of (r_role req) = ''admin'' then 2 else 1) in
        case insert_user (text_of (r_username req)) (text_of (r_email req))
               hashedPassword roleId db of
          Err e db1 \<Rightarrow> (reply 500 (Msg False ''Server error during registration.''), db1)
        | Ok u db1 \<Rightarrow> (reply 200 (Msg True ''Registration successful.''), db1))"

record login_req =
  l_role :: "string option"
  l_email :: "string option"
  l_password :: "string option"

text \<open>\<open>String.prototype.toLowerCase\<close> on the letters A to Z.\<close>

definition toLowerCase_char :: "char \<Rightarrow> char" where
  "toLowerCase_char c =
     (case map_of (zip ''ABCDEFGHIJKLMNOPQRSTUVWXYZ'' ''abcdefghijklmnopqrstuvwxyz'') c of
        None \<Rightarrow> c | Some l \<Rightarrow> l)"

definition toLowerCase :: "string \<Rightarrow> string" where
  "toLowerCase s = map toLowerCase_char s"

text \<open>
  The login query: users joined with their role row, by email.  An absent email is
  bound as NULL and matches nothing.
\<close>

definition select_user_by_email :: "string option \<Rightarrow> database \<Rightarrow> (user_row \<times> int) list" where
  "select_user_by_email mail db =
     concat (map (\<lambda>u. map (\<lambda>r. (u, fst r))
                         (filter (\<lambda>r. role_id u = Some (fst r)) (user_roles db)))
                 (filter (\<lambda>u. Some (email u) = mail) (users db)))"

text \<open>
  \<open>compare\<close> stands for \<open>bcrypt.compare\<close>, which raises when the password is not a
  string; \<open>role.toLowerCase()\<close> raises when the role is absent.
\<close>

definition login ::
  "(string \<Rightarrow> string \<Rightarrow> bool) \<Rightarrow> database \<Rightarrow> login_req \<Rightarrow> response \<times> database" where
  "login compare db req =
     (case select_user_by_email (l_email req) db of
        [] \<Rightarrow> (reply 200 (Msg False ''Invalid email or password.''), db)
      | (user, rid) # rest \<Rightarrow>
          (case l_password req of
             None \<Rightarrow> (reply 500 (Msg False ''Server error.''), db)
           | Some pw \<Rightarrow>
               if \<not> compare pw (password user)
               then (reply 200 (Msg False ''Invalid email or password.''), db)
               else
                 let roleName = (if rid = 2 then ''admin'' else ''customer'') in
                 (case l_role req of
                    None \<Rightarrow> (reply 500 (Msg False ''Server error.''), db)
                  | Some role \<Rightarrow>
                      if roleName \<noteq> toLowerCase role
                      then (reply 200 (Msg False (''Access denied: not a '' @ role @ ''.'')), db)
                      else (reply 200 (LoginOk roleName (user_id user)), db))))"

section \<open>Example data\<close>

definition shop_db :: database where
  "shop_db = empty_db \<lparr>
     users := [\<lparr> user_id = 1, username = ''alice'', email = ''alice@example.com'',
                password = ''#secret'', role_id = Some 1 \<rparr>],
     games := [\<lparr> game_id = 1, title = ''Halo'', description = ''Shooter'', price = 5999,
                genre = ''FPS'', platform = ''PC'', image_col = None \<rparr>,
              \<lparr> game_id = 2, title = ''Doom'', description = ''Classic'', price = 1999,
                genre = ''FPS'', platform = ''PC'', image_col = None \<rparr>],
     inventory := [\<lparr> inv_game_id = 1, stock_quantity = 10 \<rparr>,
                  \<lparr> inv_game_id = 2, stock_quantity = 5 \<rparr>],
     next_user_id := 2, next_game_id := 3 \<rparr>"

definition line :: "int \<Rightarrow> int \<Rightarrow> money \<Rightarrow> cart_item" where
  "line g q p = \<lparr> ci_game_id = g, ci_quantity = q, ci_price = p \<rparr>"

definition cart_req :: "cart_item list \<Rightarrow> int \<Rightarrow> checkout_req" where
  "cart_req its mid =
     \<lparr> items = Some its, totalAmount = Some 13997, paymentMethodId = Some mid,
       userId = Some 1 \<rparr>"

text \<open>A store without inventory rows, holding two orders of earlier checkouts.\<close>

definition sold_db :: database where
  "sold_db = shop_db \<lparr>
     inventory := [],
     orders := [\<lparr> order_id = 1, o_user_id = Some 1, order_date = 5,
                 total_amount = Some 7998, o_status_id = Some 1 \<rparr>,
               \<lparr> order_id = 2, o_user_id = None, order_date = 9,
                 total_amount = Some 5999, o_status_id = Some 1 \<rparr>],
     order_items := [item_row 1 1 (line 1 1 5999), item_row 2 1 (line 2 1 1999),
                    item_row 3 2 (line 1 1 5999)],
     next_order_id := 3, next_order_item_id := 4 \<rparr>"

definition demo_hash :: "string \<Rightarrow> string" where
  "demo_hash pw = CHR ''#'' # pw"

definition demo_compare :: "string \<Rightarrow> string \<Rightarrow> bool" where
  "demo_compare pw hashed = (hashed = demo_hash pw)"

definition demo_decimal :: "string \<Rightarrow> money option" where
  "demo_decimal s = (if s = ''59.99'' then Some 5999 else None)"

definition game_form :: "string option \<Rightarrow> string \<Rightarrow> string \<Rightarrow> game_req" where
  "game_form rid t p =
     \<lparr> x_request_id = rid, g_title = Some t, g_description = Some ''New'',
       g_price = Some p, g_genre = Some ''RPG'', g_platform = Some ''PC'',
       upload = Some ''1700000000000-cover.png'' \<rparr>"

definition busy_srv :: server where
  "busy_srv = \<lparr> store = shop_db, activeRequests = {''req-7''} \<rparr>"

definition signup :: "string \<Rightarrow> string \<Rightarrow> string \<Rightarrow> register_req" where
  "signup name mail role =
     \<lparr> r_username = Some name, r_email = Some mail, r_password = Some ''pw'',
       r_role = Some role \<rparr>"

definition signin :: "string \<Rightarrow> string \<Rightarrow> string \<Rightarrow> login_req" where
  "signin role mail pw = \<lparr> l_role = Some role, l_email = Some mail, l_password = Some pw \<rparr>"

section \<open>Facts about the store operations\<close>

lemma stock_of_trg:
  "stock_of (trg_update_inventory_after_order i db) g =
     (if oi_game_id i = Some g then map_option (\<lambda>s. s - oi_quantity i) (stock_of db g)
      else stock_of db g)"
proof -
  have "map_of (map (\<lambda>r. (inv_game_id r, stock_quantity r))
          (map (\<lambda>r. if Some (inv_game_id r) = oi_game_id i
                     then r \<lparr> stock_quantity := stock_quantity r - oi_quantity i \<rparr>
                     else r) rs)) g =
        (if oi_game_id i = Some g
         then map_option (\<lambda>s. s - oi_quantity i)
                (map_of (map (\<lambda>r. (inv_game_id r, stock_quantity r)) rs) g)
         else map_of (map (\<lambda>r. (inv_game_id r, stock_quantity r)) rs) g)"
    for rs :: "inventory_row list"
    by (induction rs) auto
  from this [of "inventory db"] show ?thesis
    by (simp add: stock_of_def trg_update_inventory_after_order_def)
qed

lemma insert_order_item_Ok_eq:
  assumes "insert_order_item oid it db = Ok u db'"
  shows "db' = trg_update_inventory_after_order (item_row (next_order_item_id db) oid it)
           (db \<lparr> next_order_item_id := next_order_item_id db + 1,
                 order_items := order_items db @ [item_row (next_order_item_id db) oid it] \<rparr>)"
  using assms by (simp add: insert_order_item_def Let_def split: if_splits)

lemma trg_fields:
  "order_items (trg_update_inventory_after_order i db) = order_items db"
  "orders (trg_update_inventory_after_order i db) = orders db"
  "payments (trg_update_inventory_after_order i db) = payments db"
  "games (trg_update_inventory_after_order i db) = games db"
  "users (trg_update_inventory_after_order i db) = users db"
  "payment_status (trg_update_inventory_after_order i db) = payment_status db"
  "payment_methods (trg_update_inventory_after_order i db) = payment_methods db"
  "next_payment_id (trg_update_inventory_after_order i db) = next_payment_id db"
  "next_order_item_id (trg_update_inventory_after_order i db) = next_order_item_id db"
  by (simp_all add: trg_update_inventory_after_order_def)

lemma insert_order_item_Ok:
  assumes "insert_order_item oid it db = Ok u db'"
  shows "order_items db' = order_items db @ [item_row (next_order_item_id db) oid it]"
    and "orders db' = orders db" and "payments db' = payments db"
    and "games db' = games db" and "users db' = users db"
    and "payment_status db' = payment_status db"
    and "payment_methods db' = payment_methods db"
    and "next_payment_id db' = next_payment_id db"
    and "next_order_item_id db' = next_order_item_id db + 1"
    and "stock_of db' g =
           (if g = ci_game_id it then map_option (\<lambda>s. s - ci_quantity it) (stock_of db g)
            else stock_of db g)"
proof -
  note eq = insert_order_item_Ok_eq [OF assms]
  show "order_items db' = order_items db @ [item_row (next_order_item_id db) oid it]"
    and "orders db' = orders db" and "payments db' = payments db"
    and "games db' = games db" and "users db' = users db"
    and "payment_status db' = payment_status db"
    and "payment_methods db' = payment_methods db"
    and "next_payment_id db' = next_payment_id db"
    and "next_order_item_id db' = next_order_item_id db + 1"
    by (simp_all add: eq trg_fields)
  have "stock_of (db \<lparr> next_order_item_id := a, order_items := b \<rparr>) g = stock_of db g" for a b
    by (simp add: stock_of_def)
  then show "stock_of db' g =
           (if g = ci_game_id it then map_option (\<lambda>s. s - ci_quantity it) (stock_of db g)
            else stock_of db g)"
    by (auto simp add: eq stock_of_trg item_row_def)
qed


lemma insert_order_items_Ok:
  assumes "insert_order_items strict declared oid its db = Ok u db'"
  shows "(\<exists>new. order_items db' = order_items db @ new
             \<and> map oi_order_id new = map (\<lambda>_. Some oid) its
             \<and> map oi_game_id new = map (\<lambda>it. Some (ci_game_id it)) its
             \<and> map oi_quantity new = map ci_quantity its
             \<and> map oi_price new = map ci_price its)
         \<and> orders db' = orders db \<and> payments db' = payments db
         \<and> games db' = games db \<and> users db' = users db
         \<and> payment_status db' = payment_status db
         \<and> payment_methods db' = payment_methods db
         \<and> next_payment_id db' = next_payment_id db
         \<and> (\<forall>g. stock_of db' g =
                map_option (\<lambda>s. s - sum_list (map ci_quantity
                              (filter (\<lambda>it. ci_game_id it = g) its))) (stock_of db g))"
  using assms
proof (induction its arbitrary: db declared)
  case Nil
  then show ?case by (simp add: option.map_ident)
next
  case (Cons it its)
  from Cons.prems obtain u1 db1 where
    step: "insert_order_item oid it db = Ok u1 db1" and
    rest: "insert_order_items strict True oid its db1 = Ok u db'"
    by (cases "insert_order_item oid it db") (auto split: if_splits)
  note one = insert_order_item_Ok [OF step]
  note ih = Cons.IH [OF rest]
  from ih obtain new where new:
    "order_items db' = order_items db1 @ new"
    "map oi_order_id new = map (\<lambda>_. Some oid) its"
    "map oi_game_id new = map (\<lambda>it. Some (ci_game_id it)) its"
    "map oi_quantity new = map ci_quantity its"
    "map oi_price new = map ci_price its"
    by blast
  let ?row = "item_row (next_order_item_id db) oid it"
  have "order_items db' = order_items db @ (?row # new)"
    by (simp add: new one)
  moreover have "map oi_order_id (?row # new) = map (\<lambda>_. Some oid) (it # its)"
    "map oi_game_id (?row # new) = map (\<lambda>it. Some (ci_game_id it)) (it # its)"
    "map oi_quantity (?row # new) = map ci_quantity (it # its)"
    "map oi_price (?row # new) = map ci_price (it # its)"
    by (simp_all add: new item_row_def)
  ultimately have items: "\<exists>new. order_items db' = order_items db @ new
             \<and> map oi_order_id new = map (\<lambda>_. Some oid) (it # its)
             \<and> map oi_game_id new = map (\<lambda>it. Some (ci_game_id it)) (it # its)
             \<and> map oi_quantity new = map ci_quantity (it # its)
             \<and> map oi_price new = map ci_price (it # its)"
    by blast
  have stock: "stock_of db' g =
                map_option (\<lambda>s. s - sum_list (map ci_quantity
                              (filter (\<lambda>it. ci_game_id it = g) (it # its)))) (stock_of db g)" for g
  proof -
    have a: "stock_of db' g = map_option (\<lambda>s. s - sum_list (map ci_quantity
                              (filter (\<lambda>it. ci_game_id it = g) its))) (stock_of db1 g)"
      using ih by blast
    have b: "stock_of db1 g =
           (if g = ci_game_id it then map_option (\<lambda>s. s - ci_quantity it) (stock_of db g)
            else stock_of db g)"
      by (rule one(10))
    show ?thesis
      unfolding a b by (cases "stock_of db g"; cases "g = ci_game_id it"; simp)
  qed
  from ih have same: "orders db' = orders db" "payments db' = payments db"
    "games db' = games db" "users db' = users db"
    "payment_status db' = payment_status db" "payment_methods db' = payment_methods db"
    "next_payment_id db' = next_payment_id db"
    by (simp_all add: one)
  show ?case
    using items stock same by blast
qed

lemma filter_key_distinct:
  "distinct (map f xs) \<Longrightarrow> x \<in> set xs \<Longrightarrow> filter (\<lambda>y. f y = f x) xs = [x]"
proof (induction xs)
  case Nil
  then show ?case by simp
next
  case (Cons a xs)
  show ?case
  proof (cases "x = a")
    case True
    from Cons.prems have "f a \<notin> f ` set xs" by simp
    then have "\<forall>y\<in>set xs. f y \<noteq> f a" by (metis imageI)
    then have "filter (\<lambda>y. f y = f a) xs = []" by (simp add: filter_empty_conv)
    with True show ?thesis by simp
  next
    case False
    with Cons.prems have "x \<in> set xs" "f a \<noteq> f x" by auto
    with Cons show ?thesis by simp
  qed
qed

lemma recordset_full:
  assumes pk: "distinct ks"
      and len: "length (filter (\<lambda>g. g \<in> set ids) ks) = length ids"
  shows "distinct ids \<and> set ids \<subseteq> set ks"
proof -
  have d: "distinct (filter (\<lambda>g. g \<in> set ids) ks)" using pk by simp
  have s: "set (filter (\<lambda>g. g \<in> set ids) ks) = set ks \<inter> set ids" by auto
  have "length (filter (\<lambda>g. g \<in> set ids) ks) = card (set ks \<inter> set ids)"
    using distinct_card [OF d] s by simp
  with len have c: "card (set ks \<inter> set ids) = length ids" by simp
  have le1: "card (set ks \<inter> set ids) \<le> card (set ids)"
    by (rule card_mono) auto
  have le2: "card (set ids) \<le> length ids" by (rule card_length)
  from c le1 le2 have e1: "card (set ids) = length ids"
    and e2: "card (set ks \<inter> set ids) = card (set ids)" by simp_all
  from e1 have "distinct ids" by (rule card_distinct)
  moreover have "set ks \<inter> set ids = set ids"
    by (rule card_subset_eq) (use e2 in auto)
  ultimately show ?thesis by blast
qed


lemma bind_Ok: "bind r f = Ok b db' \<longleftrightarrow> (\<exists>a db1. r = Ok a db1 \<and> f a db1 = Ok b db')"
  by (cases r) simp_all

lemma insert_order_Ok:
  assumes "insert_order now uid amount st db = Ok oid db'"
  shows "db' = db \<lparr> next_order_id := next_order_id db + 1,
                    orders := orders db @
                      [\<lparr> order_id = oid, o_user_id = uid, order_date = now,
                         total_amount = amount, o_status_id = Some st \<rparr>] \<rparr>"
    and "oid = next_order_id db"
  using assms by (auto simp add: insert_order_def Let_def split: if_splits)

lemma insert_payment_Ok:
  assumes "insert_payment now oid st mid db = Ok u db'"
  shows "db' = db \<lparr> next_payment_id := next_payment_id db + 1,
                    payments := payments db @
                      [\<lparr> payment_id = next_payment_id db, p_order_id = Some oid,
                         payment_date = now, p_status_id = Some st, p_method_id = mid \<rparr>] \<rparr>"
  using assms by (simp add: insert_payment_def Let_def split: if_splits)

lemma checkout_writes_Ok:
  assumes "checkout_writes strict now req its db = Ok oid db'"
  shows "orders db' = orders db @
           [\<lparr> order_id = oid, o_user_id = or_null (userId req), order_date = now,
              total_amount = totalAmount req, o_status_id = Some 1 \<rparr>]"
    and "\<exists>new. order_items db' = order_items db @ new
             \<and> map oi_order_id new = map (\<lambda>_. Some oid) its
             \<and> map oi_game_id new = map (\<lambda>it. Some (ci_game_id it)) its
             \<and> map oi_quantity new = map ci_quantity its
             \<and> map oi_price new = map ci_price its"
    and "payments db' = payments db @
           [\<lparr> payment_id = next_payment_id db, p_order_id = Some oid, payment_date = now,
              p_status_id = Some 1, p_method_id = paymentMethodId req \<rparr>]"
    and "stock_of db' g =
           map_option (\<lambda>s. s - sum_list (map ci_quantity
                         (filter (\<lambda>it. ci_game_id it = g) its))) (stock_of db g)"
proof -
  from assms obtain oid1 db1 where
    s1: "insert_order now (or_null (userId req)) (totalAmount req) 1 db = Ok oid1 db1"
    and r1: "bind (insert_order_items strict False oid1 its db1)
               (\<lambda>_ db2. bind (insert_payment now oid1 1 (paymentMethodId req) db2)
                  (\<lambda>_ db3. Ok oid1 db3)) = Ok oid db'"
    unfolding checkout_writes_def by (auto simp: bind_Ok)
  from r1 obtain u2 db2 where
    s2: "insert_order_items strict False oid1 its db1 = Ok u2 db2"
    and r2: "bind (insert_payment now oid1 1 (paymentMethodId req) db2)
               (\<lambda>_ db3. Ok oid1 db3) = Ok oid db'"
    by (auto simp: bind_Ok)
  from r2 obtain u3 where
    s3: "insert_payment now oid1 1 (paymentMethodId req) db2 = Ok u3 db'"
    and e: "oid1 = oid"
    by (auto simp: bind_Ok)
  note s1 = s1 [unfolded e] and s2 = s2 [unfolded e] and s3 = s3 [unfolded e]
  note o1 = insert_order_Ok(1) [OF s1]
  note o2 = insert_order_items_Ok [OF s2]
  note o3 = insert_payment_Ok [OF s3]
  have f1: "orders db1 = orders db @
           [\<lparr> order_id = oid, o_user_id = or_null (userId req), order_date = now,
              total_amount = totalAmount req, o_status_id = Some 1 \<rparr>]"
    "order_items db1 = order_items db" "payments db1 = payments db"
    "next_payment_id db1 = next_payment_id db" "stock_of db1 g = stock_of db g"
    by (simp_all add: o1 stock_of_def)
  have f3: "orders db' = orders db2" "order_items db' = order_items db2"
    "payments db' = payments db2 @
           [\<lparr> payment_id = next_payment_id db2, p_order_id = Some oid, payment_date = now,
              p_status_id = Some 1, p_method_id = paymentMethodId req \<rparr>]"
    "stock_of db' g = stock_of db2 g"
    by (simp_all add: o3 stock_of_def)
  show "orders db' = orders db @
           [\<lparr> order_id = oid, o_user_id = or_null (userId req), order_date = now,
              total_amount = totalAmount req, o_status_id = Some 1 \<rparr>]"
    using f1 f3 o2 by simp
  show "\<exists>new. order_items db' = order_items db @ new
             \<and> map oi_order_id new = map (\<lambda>_. Some oid) its
             \<and> map oi_game_id new = map (\<lambda>it. Some (ci_game_id it)) its
             \<and> map oi_quantity new = map ci_quantity its
             \<and> map oi_price new = map ci_price its"
    using o2 f1(2) f3(2) by simp
  show "payments db' = payments db @
           [\<lparr> payment_id = next_payment_id db, p_order_id = Some oid, payment_date = now,
              p_status_id = Some 1, p_method_id = paymentMethodId req \<rparr>]"
    using f1 f3 o2 by simp
  show "stock_of db' g =
           map_option (\<lambda>s. s - sum_list (map ci_quantity
                         (filter (\<lambda>it. ci_game_id it = g) its))) (stock_of db g)"
    using f1(5) f3(4) o2 by simp
qed

lemmas store_defs = shop_db_def empty_db_def seed_user_roles_def seed_order_status_def
  seed_payment_status_def seed_payment_methods_def
lemmas checkout_defs = checkout_def select_game_ids_in_def checkout_writes_def
  insert_order_def insert_order_item_def insert_payment_def
  trg_update_inventory_after_order_def item_row_def fk_ok_def falsy_num_def or_null_def
  rollback_def reply_def cart_req_def line_def Let_def


lemma checkout_200:
  assumes run: "checkout strict now db req = (resp, db', t)"
      and ok: "status resp = 200"
  shows "\<exists>its oid. items req = Some its \<and> its \<noteq> []
           \<and> length (filter (\<lambda>g. g \<in> set (map ci_game_id its)) (map game_id (games db)))
               = length (map ci_game_id its)
           \<and> checkout_writes strict now req its db = Ok oid db'
           \<and> resp = reply 200 (OrderCreated oid) \<and> t = Committed"
  using assms
  by (auto simp: checkout_def select_game_ids_in_def reply_def Let_def
           split: option.splits if_splits result.splits)


lemma checkout_mismatch:
  assumes "items req = Some its" "its \<noteq> []"
      and "\<not> falsy_num (totalAmount req)" "\<not> falsy_num (paymentMethodId req)"
      and "length (filter (\<lambda>g. g \<in> set (map ci_game_id its)) (map game_id (games db)))
             \<noteq> length its"
  shows "checkout strict now db req =
           (reply 400 (Msg False ''One or more game IDs are invalid.''), db, Open)"
  using assms by (simp add: checkout_def select_game_ids_in_def Let_def)


lemma checkout_missing_fields:
  assumes "items req = None \<or> falsy_num (totalAmount req) \<or> falsy_num (paymentMethodId req)"
  shows "checkout strict now db req =
           (reply 400 (Msg False ''Missing required fields.''), db, NotBegun)"
  using assms by (auto simp: checkout_def split: option.splits)

text \<open>
  Whatever is raised, the \<open>catch\<close> block leaves the tables as they were and puts the
  error into the answer.
\<close>

lemma checkout_error_rolls_back:
  assumes "checkout strict now db req = (resp, db', t)" and "status resp = 500"
  shows "\<exists>e. resp = reply 500 (ErrorMessage e)" and "t = RolledBack"
    and "orders db' = orders db" and "order_items db' = order_items db"
    and "payments db' = payments db" and "inventory db' = inventory db"
  using assms
  by (auto simp: checkout_def select_game_ids_in_def reply_def rollback_def Let_def
           split: option.splits if_splits result.splits)

text \<open>The handler on the example store, evaluated.\<close>

lemma checkout_two_lines:
  "checkout False 7 shop_db (cart_req [line 1 2 5999, line 2 1 1999] 1) =
     (reply 200 (OrderCreated 1),
      shop_db \<lparr>
        orders := [\<lparr> order_id = 1, o_user_id = Some 1, order_date = 7,
                    total_amount = Some 13997, o_status_id = Some 1 \<rparr>],
        payments := [\<lparr> payment_id = 1, p_order_id = Some 1, payment_date = 7,
                      p_status_id = Some 1, p_method_id = Some 1 \<rparr>],
        inventory := [\<lparr> inv_game_id = 1, stock_quantity = 8 \<rparr>,
                     \<lparr> inv_game_id = 2, stock_quantity = 4 \<rparr>],
        order_items := [item_row 1 1 (line 1 2 5999), item_row 2 1 (line 2 1 1999)],
        next_order_id := 2, next_payment_id := 2, next_order_item_id := 3 \<rparr>,
      Committed)"
  by (simp add: checkout_defs store_defs)

text \<open>
  With a driver that refuses a parameter name declared before, the same request ends in
  the \<open>catch\<close> block at its second line.
\<close>

lemma checkout_two_lines_strict:
  "checkout True 7 shop_db (cart_req [line 1 2 5999, line 2 1 1999] 1) =
     (reply 500 (ErrorMessage (DuplicateParameter ''order_id_item'')),
      shop_db \<lparr> next_order_id := 2, next_order_item_id := 2 \<rparr>,
      RolledBack)"
  by (simp add: checkout_defs store_defs)

lemma shop_db_pk: "distinct (map game_id (games shop_db))"
  by (simp add: store_defs)

section \<open>Checkout: the claims\<close>

text \<open>
  C1.  Whenever the checkout handler answers with success (status 200) on a store whose
  game identifiers are unique (the primary key), the request carried a non-empty cart
  whose games all exist, and the store afterwards holds exactly one more order, with
  status 1 (the seed row \<open>pending\<close>) and the generated identity the answer reports;
  exactly one more order item per cart line, in cart order, each referencing that
  identity and carrying the line's game, quantity and price; exactly one more
  payment referencing the identity; and for each cart line the stock of its game is the
  former stock less the line's quantity.
\<close>

theorem checkout_success_rows:
  assumes pk: "distinct (map game_id (games db))"
      and run: "checkout strict now db req = (resp, db', t)"
      and ok: "status resp = 200"
  shows "\<exists>its oid new pid.
           items req = Some its \<and> its \<noteq> []
         \<and> resp = reply 200 (OrderCreated oid) \<and> t = Committed
         \<and> orders db' = orders db @
              [\<lparr> order_id = oid, o_user_id = or_null (userId req), order_date = now,
                 total_amount = totalAmount req, o_status_id = Some 1 \<rparr>]
         \<and> map_of seed_order_status 1 = Some ''pending''
         \<and> order_items db' = order_items db @ new \<and> length new = length its
         \<and> (\<forall>i \<in> set new. oi_order_id i = Some oid)
         \<and> map oi_game_id new = map (\<lambda>it. Some (ci_game_id it)) its
         \<and> map oi_quantity new = map ci_quantity its
         \<and> map oi_price new = map ci_price its
         \<and> payments db' = payments db @
              [\<lparr> payment_id = pid, p_order_id = Some oid, payment_date = now,
                 p_status_id = Some 1, p_method_id = paymentMethodId req \<rparr>]
         \<and> (\<forall>it \<in> set its. ci_game_id it \<in> set (map game_id (games db))
               \<and> stock_of db' (ci_game_id it) =
                   map_option (\<lambda>s. s - ci_quantity it) (stock_of db (ci_game_id it)))"
proof -
  from checkout_200 [OF run ok] obtain its oid where
    its: "items req = Some its" "its \<noteq> []"
    and len: "length (filter (\<lambda>g. g \<in> set (map ci_game_id its)) (map game_id (games db)))
               = length (map ci_game_id its)"
    and w: "checkout_writes strict now req its db = Ok oid db'"
    and r: "resp = reply 200 (OrderCreated oid)" "t = Committed"
    by blast
  from recordset_full [OF pk len] have d: "distinct (map ci_game_id its)"
    and sub: "set (map ci_game_id its) \<subseteq> set (map game_id (games db))" by blast+
  note cw = checkout_writes_Ok [OF w]
  from cw(2) obtain new where new: "order_items db' = order_items db @ new"
    "map oi_order_id new = map (\<lambda>_. Some oid) its"
    "map oi_game_id new = map (\<lambda>it. Some (ci_game_id it)) its"
    "map oi_quantity new = map ci_quantity its"
    "map oi_price new = map ci_price its"
    by blast
  from new(2) have ln: "length new = length its" by (rule map_eq_imp_length_eq)
  have ref: "\<forall>i \<in> set new. oi_order_id i = Some oid"
  proof
    fix i assume "i \<in> set new"
    then have "oi_order_id i \<in> set (map oi_order_id new)" by simp
    then show "oi_order_id i = Some oid" unfolding new(2) by auto
  qed
  have st: "\<forall>it \<in> set its. ci_game_id it \<in> set (map game_id (games db))
               \<and> stock_of db' (ci_game_id it) =
                   map_option (\<lambda>s. s - ci_quantity it) (stock_of db (ci_game_id it))"
  proof
    fix it assume mem: "it \<in> set its"
    have "filter (\<lambda>y. ci_game_id y = ci_game_id it) its = [it]"
      by (rule filter_key_distinct [OF d mem])
    then have "stock_of db' (ci_game_id it) =
                   map_option (\<lambda>s. s - ci_quantity it) (stock_of db (ci_game_id it))"
      using cw(4) [of "ci_game_id it"] by simp
    moreover have "ci_game_id it \<in> set (map game_id (games db))"
      using sub mem by auto
    ultimately show "ci_game_id it \<in> set (map game_id (games db))
               \<and> stock_of db' (ci_game_id it) =
                   map_option (\<lambda>s. s - ci_quantity it) (stock_of db (ci_game_id it))"
      by blast
  qed
  have seed: "map_of seed_order_status 1 = Some ''pending''"
    by (simp add: seed_order_status_def)
  show ?thesis
    using its r cw(1) seed new(1) ln ref new(3,4,5) cw(3) st by blast
qed

theorem checkout_success_rows_witness:
  "distinct (map game_id (games shop_db))
   \<and> status (fst (checkout False 7 shop_db (cart_req [line 1 2 5999, line 2 1 1999] 1))) = 200
   \<and> length (orders (fst (snd (checkout False 7 shop_db
          (cart_req [line 1 2 5999, line 2 1 1999] 1))))) = 1
   \<and> length (order_items (fst (snd (checkout False 7 shop_db
          (cart_req [line 1 2 5999, line 2 1 1999] 1))))) = 2
   \<and> length (payments (fst (snd (checkout False 7 shop_db
          (cart_req [line 1 2 5999, line 2 1 1999] 1))))) = 1
   \<and> stock_of (fst (snd (checkout False 7 shop_db
          (cart_req [line 1 2 5999, line 2 1 1999] 1)))) 1 = Some 8
   \<and> stock_of (fst (snd (checkout False 7 shop_db
          (cart_req [line 1 2 5999, line 2 1 1999] 1)))) 2 = Some 4"
proof -
  let ?req = "cart_req [line 1 2 5999, line 2 1 1999] 1"
  let ?r = "checkout False 7 shop_db ?req"
  have run: "?r = (fst ?r, fst (snd ?r), snd (snd ?r))" by simp
  have ok: "status (fst ?r) = 200" by (simp add: checkout_two_lines reply_def)
  from checkout_success_rows [OF shop_db_pk run ok] obtain its oid new pid where
    c: "items ?req = Some its"
       "orders (fst (snd ?r)) = orders shop_db @
              [\<lparr> order_id = oid, o_user_id = or_null (userId ?req), order_date = 7,
                 total_amount = totalAmount ?req, o_status_id = Some 1 \<rparr>]"
       "order_items (fst (snd ?r)) = order_items shop_db @ new" "length new = length its"
       "payments (fst (snd ?r)) = payments shop_db @
              [\<lparr> payment_id = pid, p_order_id = Some oid, payment_date = 7,
                 p_status_id = Some 1, p_method_id = paymentMethodId ?req \<rparr>]"
       "\<forall>it \<in> set its. ci_game_id it \<in> set (map game_id (games shop_db))
               \<and> stock_of (fst (snd ?r)) (ci_game_id it) =
                   map_option (\<lambda>s. s - ci_quantity it) (stock_of shop_db (ci_game_id it))"
    by blast
  from c(1) have its: "its = [line 1 2 5999, line 2 1 1999]" by (simp add: cart_req_def)
  have s: "stock_of shop_db 1 = Some 10" "stock_of shop_db 2 = Some 5"
    by (simp_all add: stock_of_def store_defs)
  have e: "orders shop_db = []" "order_items shop_db = []" "payments shop_db = []"
    by (simp_all add: store_defs)
  from c(6) have "stock_of (fst (snd ?r)) 1 = Some 8" "stock_of (fst (snd ?r)) 2 = Some 4"
    by (simp_all add: its line_def s)
  moreover have "length (orders (fst (snd ?r))) = 1" "length (payments (fst (snd ?r))) = 1"
    "length (order_items (fst (snd ?r))) = 2"
    using c(2,3,4,5) by (simp_all add: e its)
  ultimately show ?thesis using shop_db_pk ok by simp
qed

text \<open>
  C2.  The claim's failing input: a one-line cart paid with a method that does not
  exist.  The payment insert raises after the order and its item were inserted; the
  handler rolls back, so no table keeps a row of the attempt, and answers 500 with the
  raised error's own message as the body, not with a generic one.
\<close>

theorem checkout_error_message_exposed:
  "checkout strict now shop_db (cart_req [line 1 2 5999] 99) =
     (reply 500 (ErrorMessage (ForeignKeyViolation ''payments.method_id'')),
      shop_db \<lparr> next_order_id := 2, next_payment_id := 2, next_order_item_id := 2 \<rparr>,
      RolledBack)"
  by (simp add: checkout_defs store_defs)

text \<open>
  C3, as stated, fails: when the handler answers that a game identifier is invalid, it
  has begun its transaction already and has not ended it.
\<close>

theorem checkout_unknown_game_txn_open:
  "checkout True 7 shop_db (cart_req [line 1 2 5999, line 99 1 100] 1) =
     (reply 400 (Msg False ''One or more game IDs are invalid.''), shop_db, Open)"
  by (simp add: checkout_defs store_defs)

text \<open>
  C3, amended.  On a store whose game identifiers are unique, every checkout request
  that passes the field validation and has a cart line whose game is not in the
  catalogue is answered with status 400 and the invalid-identifier message; the store
  is unchanged, no statement having run inside the transaction, which has been begun
  by then.
\<close>

theorem checkout_unknown_game:
  assumes pk: "distinct (map game_id (games db))"
      and its: "items req = Some its"
      and amount: "\<not> falsy_num (totalAmount req)"
      and paid: "\<not> falsy_num (paymentMethodId req)"
      and unknown: "\<exists>it \<in> set its. ci_game_id it \<notin> set (map game_id (games db))"
  shows "\<exists>t. checkout strict now db req =
           (reply 400 (Msg False ''One or more game IDs are invalid.''), db, t)
         \<and> t \<noteq> NotBegun"
proof -
  from unknown have ne: "its \<noteq> []" by auto
  have "length (filter (\<lambda>g. g \<in> set (map ci_game_id its)) (map game_id (games db)))
          \<noteq> length (map ci_game_id its)"
    using recordset_full [OF pk, of "map ci_game_id its"] unknown by auto
  then show ?thesis
    using checkout_mismatch [OF its ne amount paid] by simp
qed

theorem checkout_unknown_game_witness:
  "distinct (map game_id (games shop_db))
   \<and> items (cart_req [line 1 2 5999, line 99 1 100] 1) = Some [line 1 2 5999, line 99 1 100]
   \<and> \<not> falsy_num (totalAmount (cart_req [line 1 2 5999, line 99 1 100] 1))
   \<and> \<not> falsy_num (paymentMethodId (cart_req [line 1 2 5999, line 99 1 100] 1))
   \<and> ci_game_id (line 99 1 100) \<notin> set (map game_id (games shop_db))
   \<and> fst (checkout False 3 shop_db (cart_req [line 1 2 5999, line 99 1 100] 1)) =
       reply 400 (Msg False ''One or more game IDs are invalid.'')
   \<and> fst (snd (checkout False 3 shop_db (cart_req [line 1 2 5999, line 99 1 100] 1))) = shop_db
   \<and> snd (snd (checkout False 3 shop_db (cart_req [line 1 2 5999, line 99 1 100] 1)))
       \<noteq> NotBegun"
proof -
  let ?req = "cart_req [line 1 2 5999, line 99 1 100] 1"
  have its: "items ?req = Some [line 1 2 5999, line 99 1 100]"
    and amount: "\<not> falsy_num (totalAmount ?req)"
    and paid: "\<not> falsy_num (paymentMethodId ?req)"
    by (simp_all add: cart_req_def falsy_num_def)
  have missing: "ci_game_id (line 99 1 100) \<notin> set (map game_id (games shop_db))"
    by (simp add: line_def store_defs)
  then have unknown: "\<exists>it \<in> set [line 1 2 5999, line 99 1 100].
      ci_game_id it \<notin> set (map game_id (games shop_db))"
    by simp
  from checkout_unknown_game [OF shop_db_pk its amount paid unknown, of False 3]
  obtain t where "checkout False 3 shop_db ?req =
      (reply 400 (Msg False ''One or more game IDs are invalid.''), shop_db, t)"
    "t \<noteq> NotBegun"
    by blast
  then show ?thesis using shop_db_pk its amount paid missing by simp
qed

text \<open>
  C4.  The claim's failing input: a request with an empty cart, a total and a payment
  method.  The empty array is truthy, so the field validation lets it pass; the
  catalogue lookup is then malformed and raises, and the handler answers 500 with that
  error's message, not 400.  The store keeps no change.
\<close>

theorem checkout_empty_cart:
  "checkout strict now shop_db (cart_req [] 1) =
     (reply 500 (ErrorMessage SyntaxError), shop_db, RolledBack)"
  by (simp add: checkout_defs store_defs)

text \<open>
  C9.  On a store whose game identifiers are unique, every checkout request that passes
  the field validation and whose cart names some game on more than one line, all its
  games being in the catalogue, is answered with status 400 and the
  invalid-identifier message, and the store is unchanged: no order, order item or
  payment is created.  (The transaction begun by then stays open.)
\<close>

theorem checkout_repeated_game:
  assumes pk: "distinct (map game_id (games db))"
      and its: "items req = Some its"
      and amount: "\<not> falsy_num (totalAmount req)"
      and paid: "\<not> falsy_num (paymentMethodId req)"
      and rep: "\<not> distinct (map ci_game_id its)"
      and known: "\<forall>it \<in> set its. ci_game_id it \<in> set (map game_id (games db))"
  shows "checkout strict now db req =
           (reply 400 (Msg False ''One or more game IDs are invalid.''), db, Open)"
proof -
  from rep have ne: "its \<noteq> []" by auto
  have "length (filter (\<lambda>g. g \<in> set (map ci_game_id its)) (map game_id (games db)))
          \<noteq> length (map ci_game_id its)"
    using recordset_full [OF pk] rep by blast
  then show ?thesis
    using checkout_mismatch [OF its ne amount paid] by simp
qed


theorem checkout_repeated_game_witness:
  "distinct (map game_id (games shop_db))
   \<and> items (cart_req [line 1 1 5999, line 1 2 5999] 1) = Some [line 1 1 5999, line 1 2 5999]
   \<and> \<not> falsy_num (totalAmount (cart_req [line 1 1 5999, line 1 2 5999] 1))
   \<and> \<not> falsy_num (paymentMethodId (cart_req [line 1 1 5999, line 1 2 5999] 1))
   \<and> \<not> distinct (map ci_game_id [line 1 1 5999, line 1 2 5999])
   \<and> ci_game_id (line 1 1 5999) \<in> set (map game_id (games shop_db))
   \<and> ci_game_id (line 1 2 5999) \<in> set (map game_id (games shop_db))
   \<and> checkout True 3 shop_db (cart_req [line 1 1 5999, line 1 2 5999] 1) =
       (reply 400 (Msg False ''One or more game IDs are invalid.''), shop_db, Open)"
proof -
  let ?req = "cart_req [line 1 1 5999, line 1 2 5999] 1"
  have its: "items ?req = Some [line 1 1 5999, line 1 2 5999]"
    and amount: "\<not> falsy_num (totalAmount ?req)"
    and paid: "\<not> falsy_num (paymentMethodId ?req)"
    by (simp_all add: cart_req_def falsy_num_def)
  have rep: "\<not> distinct (map ci_game_id [line 1 1 5999, line 1 2 5999])"
    by (simp add: line_def)
  have k: "ci_game_id (line 1 1 5999) \<in> set (map game_id (games shop_db))"
    "ci_game_id (line 1 2 5999) \<in> set (map game_id (games shop_db))"
    by (simp_all add: line_def store_defs)
  then have known: "\<forall>it \<in> set [line 1 1 5999, line 1 2 5999].
      ci_game_id it \<in> set (map game_id (games shop_db))"
    by simp
  from checkout_repeated_game [OF shop_db_pk its amount paid rep known, of True 3]
  show ?thesis using shop_db_pk its amount paid rep k by simp
qed

section \<open>Game creation: the claim\<close>

lemma add_game_exits:
  "fst (add_game to_decimal db req) \<in>
     {reply 200 (Msg True ''Game added successfully.''),
      reply 400 (Msg False ''All fields are required, including an image.''),
      reply 400 (Msg False ''Game with this title already exists.''),
      reply 500 (Msg False ''Failed to add game.'')}"
  by (simp add: add_game_def split: result.splits)

lemma add_game_not_duplicate:
  "fst (add_game to_decimal db req) \<noteq> reply 400 (Msg False ''Duplicate request detected.'')"
  using add_game_exits [of to_decimal db req] by (auto simp: reply_def)

lemma post_games_run_fst:
  "fst (post_games_run to_decimal rid srv req) = fst (add_game to_decimal (store srv) req)"
  by (simp add: post_games_run_def split: prod.splits)

lemma post_games_run_active:
  "activeRequests (snd (post_games_run to_decimal rid srv req)) = activeRequests srv - {rid}"
  by (simp add: post_games_run_def split: prod.splits)

lemma post_games_run_store:
  "store (snd (post_games_run to_decimal rid srv req)) =
     fst (snd (add_game to_decimal (store srv) req))"
  by (simp add: post_games_run_def split: prod.splits)


lemma post_games_rejected:
  "request_id uuid req \<in> activeRequests srv \<Longrightarrow>
   post_games to_decimal uuid srv req =
     (reply 400 (Msg False ''Duplicate request detected.''), srv)"
  by (simp add: post_games_def post_games_enter_def Let_def)

lemma post_games_processed:
  assumes "request_id uuid req \<notin> activeRequests srv"
  shows "post_games to_decimal uuid srv req =
           post_games_run to_decimal (request_id uuid req)
             (srv \<lparr> activeRequests := insert (request_id uuid req) (activeRequests srv) \<rparr>) req"
  using assms by (simp add: post_games_def post_games_enter_def Let_def)

lemmas games_defs = post_games_def post_games_enter_def post_games_run_def add_game_def
  insert_game_def request_id_def falsy_str_def text_of_def rollback_def reply_def
  game_form_def busy_srv_def demo_decimal_def Let_def

lemma post_games_exits_reached:
  "fst (post_games demo_decimal ''u1'' busy_srv (game_form None ''Zelda'' ''59.99'')) =
     reply 200 (Msg True ''Game added successfully.'')"
  "fst (post_games demo_decimal ''u1'' busy_srv (game_form None [] ''59.99'')) =
     reply 400 (Msg False ''All fields are required, including an image.'')"
  "fst (post_games demo_decimal ''u1'' busy_srv (game_form None ''Halo'' ''59.99'')) =
     reply 400 (Msg False ''Game with this title already exists.'')"
  "fst (post_games demo_decimal ''u1'' busy_srv (game_form None ''Zelda'' ''abc'')) =
     reply 500 (Msg False ''Failed to add game.'')"
  by (simp_all add: games_defs store_defs)


text \<open>
  C5.  A request whose identifier is in the set of active requests is answered 400
  with the duplicate-request message, and neither the store nor the set changes.  A
  request whose identifier is not in the set is admitted: the handler puts the
  identifier into the set and then runs the transaction from that state, and while the
  identifier is in the set every request carrying it is answered as a duplicate.  The
  transaction part answers and writes what \<open>add_game\<close> does, ends on one of its four
  exits (game added, a field missing, title taken, the store raising), and from any
  state, also one that holds the identifier and those of other requests, leaves the set
  without the identifier and otherwise as it was.  So after an admitted request the
  identifier is out of the set and no later request with it is answered as a
  duplicate.
\<close>

theorem post_games_request_marker:
  "(request_id uuid req \<in> activeRequests srv \<longrightarrow>
      post_games to_decimal uuid srv req =
        (reply 400 (Msg False ''Duplicate request detected.''), srv))
   \<and> (request_id uuid req \<notin> activeRequests srv \<longrightarrow>
        post_games_enter uuid srv req =
          Admitted (request_id uuid req)
            (srv \<lparr> activeRequests := insert (request_id uuid req) (activeRequests srv) \<rparr>)
      \<and> post_games to_decimal uuid srv req =
          post_games_run to_decimal (request_id uuid req)
            (srv \<lparr> activeRequests := insert (request_id uuid req) (activeRequests srv) \<rparr>) req
      \<and> (\<forall>uuid2 req2. request_id uuid2 req2 = request_id uuid req \<longrightarrow>
            post_games to_decimal uuid2
              (srv \<lparr> activeRequests := insert (request_id uuid req) (activeRequests srv) \<rparr>)
              req2 =
            (reply 400 (Msg False ''Duplicate request detected.''),
             srv \<lparr> activeRequests := insert (request_id uuid req) (activeRequests srv) \<rparr>))
      \<and> fst (post_games to_decimal uuid srv req) = fst (add_game to_decimal (store srv) req)
      \<and> store (snd (post_games to_decimal uuid srv req)) =
          fst (snd (add_game to_decimal (store srv) req))
      \<and> request_id uuid req \<notin> activeRequests (snd (post_games to_decimal uuid srv req))
      \<and> (\<forall>uuid2 req2. request_id uuid2 req2 = request_id uuid req \<longrightarrow>
            fst (post_games to_decimal uuid2 (snd (post_games to_decimal uuid srv req)) req2)
              \<noteq> reply 400 (Msg False ''Duplicate request detected.'')))
   \<and> fst (post_games_run to_decimal rid srv1 req) = fst (add_game to_decimal (store srv1) req)
   \<and> fst (post_games_run to_decimal rid srv1 req) \<in>
          {reply 200 (Msg True ''Game added successfully.''),
           reply 400 (Msg False ''All fields are required, including an image.''),
           reply 400 (Msg False ''Game with this title already exists.''),
           reply 500 (Msg False ''Failed to add game.'')}
   \<and> store (snd (post_games_run to_decimal rid srv1 req)) =
          fst (snd (add_game to_decimal (store srv1) req))
   \<and> activeRequests (snd (post_games_run to_decimal rid srv1 req)) = activeRequests srv1 - {rid}
   \<and> rid \<notin> activeRequests (snd (post_games_run to_decimal rid srv1 req))"
proof -
  let ?rid = "request_id uuid req"
  let ?in = "srv \<lparr> activeRequests := insert ?rid (activeRequests srv) \<rparr>"
  let ?dup = "reply 400 (Msg False ''Duplicate request detected.'')"
  have A: "?rid \<in> activeRequests srv \<longrightarrow> post_games to_decimal uuid srv req = (?dup, srv)"
    by (simp add: post_games_rejected)
  have B: "post_games_enter uuid srv req = Admitted ?rid ?in"
      "post_games to_decimal uuid srv req = post_games_run to_decimal ?rid ?in req"
      "fst (post_games to_decimal uuid srv req) = fst (add_game to_decimal (store srv) req)"
      "store (snd (post_games to_decimal uuid srv req)) =
          fst (snd (add_game to_decimal (store srv) req))"
      "?rid \<notin> activeRequests (snd (post_games to_decimal uuid srv req))"
    if fresh: "?rid \<notin> activeRequests srv"
  proof -
    show "post_games_enter uuid srv req = Admitted ?rid ?in"
      using fresh by (simp add: post_games_enter_def Let_def)
    show run: "post_games to_decimal uuid srv req = post_games_run to_decimal ?rid ?in req"
      using fresh by (rule post_games_processed)
    show "fst (post_games to_decimal uuid srv req) = fst (add_game to_decimal (store srv) req)"
      by (simp add: run post_games_run_fst)
    show "store (snd (post_games to_decimal uuid srv req)) =
          fst (snd (add_game to_decimal (store srv) req))"
      by (simp add: run post_games_run_store)
    show "?rid \<notin> activeRequests (snd (post_games to_decimal uuid srv req))"
      by (simp add: run post_games_run_active)
  qed
  have C: "post_games to_decimal uuid2 ?in req2 = (?dup, ?in)"
    if "request_id uuid2 req2 = ?rid" for uuid2 req2
  proof -
    from that have "request_id uuid2 req2 \<in> activeRequests ?in" by simp
    then show ?thesis by (rule post_games_rejected)
  qed
  have D: "fst (post_games to_decimal uuid2 (snd (post_games to_decimal uuid srv req)) req2) \<noteq> ?dup"
    if fresh: "?rid \<notin> activeRequests srv" and same: "request_id uuid2 req2 = ?rid"
    for uuid2 req2
  proof -
    let ?srv1 = "snd (post_games to_decimal uuid srv req)"
    from B(5) [OF fresh] same have "request_id uuid2 req2 \<notin> activeRequests ?srv1" by simp
    then have "post_games to_decimal uuid2 ?srv1 req2 =
        post_games_run to_decimal (request_id uuid2 req2)
          (?srv1 \<lparr> activeRequests := insert (request_id uuid2 req2) (activeRequests ?srv1) \<rparr>) req2"
      by (rule post_games_processed)
    then show ?thesis
      by (simp add: post_games_run_fst add_game_not_duplicate)
  qed
  have E: "fst (post_games_run to_decimal rid srv1 req) = fst (add_game to_decimal (store srv1) req)"
    "store (snd (post_games_run to_decimal rid srv1 req)) =
          fst (snd (add_game to_decimal (store srv1) req))"
    "activeRequests (snd (post_games_run to_decimal rid srv1 req)) = activeRequests srv1 - {rid}"
    by (simp_all add: post_games_run_fst post_games_run_store post_games_run_active)
  have F: "fst (post_games_run to_decimal rid srv1 req) \<in>
          {reply 200 (Msg True ''Game added successfully.''),
           reply 400 (Msg False ''All fields are required, including an image.''),
           reply 400 (Msg False ''Game with this title already exists.''),
           reply 500 (Msg False ''Failed to add game.'')}"
    unfolding E(1) by (rule add_game_exits)
  have G: "rid \<notin> activeRequests (snd (post_games_run to_decimal rid srv1 req))"
    by (simp add: E(3))
  show ?thesis
    using A B C D E F G by blast
qed

theorem post_games_request_marker_witness:
  "request_id ''u1'' (game_form (Some ''req-7'') ''Zelda'' ''59.99'') \<in> activeRequests busy_srv
   \<and> post_games demo_decimal ''u1'' busy_srv (game_form (Some ''req-7'') ''Zelda'' ''59.99'') =
       (reply 400 (Msg False ''Duplicate request detected.''), busy_srv)
   \<and> request_id ''u1'' (game_form (Some ''req-8'') ''Zelda'' ''abc'') \<notin> activeRequests busy_srv
   \<and> post_games_enter ''u1'' busy_srv (game_form (Some ''req-8'') ''Zelda'' ''abc'') =
       Admitted ''req-8'' (busy_srv \<lparr> activeRequests := {''req-8'', ''req-7''} \<rparr>)
   \<and> post_games demo_decimal ''u2'' (busy_srv \<lparr> activeRequests := {''req-8'', ''req-7''} \<rparr>)
         (game_form (Some ''req-8'') ''Zelda'' ''59.99'') =
       (reply 400 (Msg False ''Duplicate request detected.''),
        busy_srv \<lparr> activeRequests := {''req-8'', ''req-7''} \<rparr>)
   \<and> fst (post_games_run demo_decimal ''req-8''
            (busy_srv \<lparr> activeRequests := {''req-8'', ''req-7''} \<rparr>)
            (game_form (Some ''req-8'') ''Zelda'' ''abc'')) =
       reply 500 (Msg False ''Failed to add game.'')
   \<and> activeRequests (snd (post_games_run demo_decimal ''req-8''
            (busy_srv \<lparr> activeRequests := {''req-8'', ''req-7''} \<rparr>)
            (game_form (Some ''req-8'') ''Zelda'' ''abc''))) = {''req-7''}
   \<and> request_id ''u1'' (game_form (Some ''req-8'') ''Zelda'' ''abc'') \<notin>
       activeRequests (snd (post_games demo_decimal ''u1'' busy_srv
                              (game_form (Some ''req-8'') ''Zelda'' ''abc'')))
   \<and> fst (post_games demo_decimal ''u2''
            (snd (post_games demo_decimal ''u1'' busy_srv
                    (game_form (Some ''req-8'') ''Zelda'' ''abc'')))
            (game_form (Some ''req-8'') ''Zelda'' ''59.99''))
       \<noteq> reply 400 (Msg False ''Duplicate request detected.'')"
proof -
  let ?dup = "game_form (Some ''req-7'') ''Zelda'' ''59.99''"
  let ?bad = "game_form (Some ''req-8'') ''Zelda'' ''abc''"
  let ?again = "game_form (Some ''req-8'') ''Zelda'' ''59.99''"
  let ?in = "busy_srv \<lparr> activeRequests := {''req-8'', ''req-7''} \<rparr>"
  have held: "request_id ''u1'' ?dup \<in> activeRequests busy_srv"
    and free: "request_id ''u1'' ?bad \<notin> activeRequests busy_srv"
    and same: "request_id ''u2'' ?again = request_id ''u1'' ?bad"
    and rid: "request_id ''u1'' ?bad = ''req-8''"
    by (simp_all add: request_id_def falsy_str_def text_of_def game_form_def busy_srv_def)
  have ins: "busy_srv \<lparr> activeRequests :=
      insert (request_id ''u1'' ?bad) (activeRequests busy_srv) \<rparr> = ?in"
    by (simp add: rid) (simp add: busy_srv_def)
  have out: "fst (add_game demo_decimal (store ?in) ?bad) =
       reply 500 (Msg False ''Failed to add game.'')"
    by (simp add: games_defs store_defs)
  have rest: "activeRequests ?in - {''req-8''} = {''req-7''}"
    by auto
  note a = post_games_request_marker [of "''u1''" ?dup busy_srv demo_decimal]
  note b = post_games_request_marker
    [of "''u1''" ?bad busy_srv demo_decimal "''req-8''" ?in, unfolded ins]
  from a held have 1: "post_games demo_decimal ''u1'' busy_srv ?dup =
       (reply 400 (Msg False ''Duplicate request detected.''), busy_srv)"
    by blast
  from b free have 2: "post_games_enter ''u1'' busy_srv ?bad = Admitted (request_id ''u1'' ?bad) ?in"
    and 3: "\<forall>uuid2 req2. request_id uuid2 req2 = request_id ''u1'' ?bad \<longrightarrow>
            post_games demo_decimal uuid2 ?in req2 =
              (reply 400 (Msg False ''Duplicate request detected.''), ?in)"
    and 4: "request_id ''u1'' ?bad \<notin>
       activeRequests (snd (post_games demo_decimal ''u1'' busy_srv ?bad))"
    and 5: "\<forall>uuid2 req2. request_id uuid2 req2 = request_id ''u1'' ?bad \<longrightarrow>
            fst (post_games demo_decimal uuid2
                   (snd (post_games demo_decimal ''u1'' busy_srv ?bad)) req2)
              \<noteq> reply 400 (Msg False ''Duplicate request detected.'')"
    by blast+
  from b have 6: "fst (post_games_run demo_decimal ''req-8'' ?in ?bad) =
        fst (add_game demo_decimal (store ?in) ?bad)"
    and 7: "activeRequests (snd (post_games_run demo_decimal ''req-8'' ?in ?bad)) =
        activeRequests ?in - {''req-8''}"
    by blast+
  from 3 same have 8: "post_games demo_decimal ''u2'' ?in ?again =
      (reply 400 (Msg False ''Duplicate request detected.''), ?in)"
    by blast
  from 5 same have 9: "fst (post_games demo_decimal ''u2''
            (snd (post_games demo_decimal ''u1'' busy_srv ?bad)) ?again)
       \<noteq> reply 400 (Msg False ''Duplicate request detected.'')"
    by blast
  from held 1 free 2 [unfolded rid] 8 6 [unfolded out] 7 [unfolded rest] 4 9
  show ?thesis by blast
qed


section \<open>Accounts: the claims\<close>

lemma register_conflict:
  assumes "\<not> falsy_str (r_username req)" "\<not> falsy_str (r_email req)"
    "\<not> falsy_str (r_password req)" "\<not> falsy_str (r_role req)"
    and "text_of (r_email req) \<in> set (map email (users db))"
  shows "register hash db req = (reply 200 (Msg False ''Email is already registered.''), db)"
  using assms by (simp add: register_def)

lemma register_fresh:
  assumes "\<not> falsy_str (r_username req)" "\<not> falsy_str (r_email req)"
    "\<not> falsy_str (r_password req)" "\<not> falsy_str (r_role req)"
    and "text_of (r_email req) \<notin> set (map email (users db))"
    and "{1, 2} \<subseteq> set (map fst (user_roles db))"
  shows "register hash db req =
           (reply 200 (Msg True ''Registration successful.''),
            db \<lparr> next_user_id := next_user_id db + 1,
                 users := users db @
                   [\<lparr> user_id = next_user_id db, username = text_of (r_username req),
                      email = text_of (r_email req),
                      password = hash (text_of (r_password req)),
                      role_id = Some (if r_role req = Some ''admin'' then 2 else 1) \<rparr>] \<rparr>)"
proof -
  from assms(4) obtain role where role: "r_role req = Some role"
    by (cases "r_role req") (simp_all add: falsy_str_def)
  show ?thesis
    using assms by (simp add: register_def insert_user_def fk_ok_def Let_def role text_of_def)
qed

lemma count_key_distinct:
  "distinct (map f xs) \<Longrightarrow> e \<in> set (map f xs) \<Longrightarrow> length (filter (\<lambda>x. f x = e) xs) = 1"
proof (induction xs)
  case Nil
  then show ?case by simp
next
  case (Cons a xs)
  show ?case
  proof (cases "f a = e")
    case True
    with Cons.prems have "\<forall>x \<in> set xs. f x \<noteq> e" by (metis distinct.simps(2) imageI list.simps(9) set_map)
    then have "filter (\<lambda>x. f x = e) xs = []" by (simp add: filter_empty_conv)
    with True show ?thesis by simp
  next
    case False
    with Cons show ?thesis by simp
  qed
qed

lemmas register_defs = register_def insert_user_def fk_ok_def falsy_str_def text_of_def
  reply_def signup_def demo_hash_def Let_def


text \<open>
  C6, as stated, fails: the second registration of an email is refused with the
  conflict message, but the answer goes out with status 200, not 400.
\<close>

theorem register_conflict_answered_200:
  "fst (register demo_hash
          (snd (register demo_hash shop_db (signup ''bob'' ''bob@example.com'' ''customer'')))
          (signup ''bobby'' ''bob@example.com'' ''customer'')) =
     reply 200 (Msg False ''Email is already registered.'')
   \<and> status (fst (register demo_hash
          (snd (register demo_hash shop_db (signup ''bob'' ''bob@example.com'' ''customer'')))
          (signup ''bobby'' ''bob@example.com'' ''customer''))) \<noteq> 400"
  by (simp add: register_defs store_defs)


text \<open>
  C6, amended.  With the two roles of the seed data present and emails unique in the
  store, of two register requests with all fields present and the same email the
  second is answered with \<open>success: false\<close> and the message that the email is already
  registered, under status 200; it changes nothing, and the store holds exactly one
  user with that email.
\<close>

theorem register_same_email_twice:
  assumes p1: "\<not> falsy_str (r_username r1)" "\<not> falsy_str (r_email r1)"
              "\<not> falsy_str (r_password r1)" "\<not> falsy_str (r_role r1)"
      and p2: "\<not> falsy_str (r_username r2)" "\<not> falsy_str (r_email r2)"
              "\<not> falsy_str (r_password r2)" "\<not> falsy_str (r_role r2)"
      and same: "r_email r2 = r_email r1"
      and roles: "{1, 2} \<subseteq> set (map fst (user_roles db))"
      and uniq: "distinct (map email (users db))"
  shows "register hash2 (snd (register hash1 db r1)) r2 =
           (reply 200 (Msg False ''Email is already registered.''),
            snd (register hash1 db r1))
         \<and> length (filter (\<lambda>u. email u = text_of (r_email r1))
                     (users (snd (register hash1 db r1)))) = 1"
proof (cases "text_of (r_email r1) \<in> set (map email (users db))")
  case True
  have r1: "register hash1 db r1 = (reply 200 (Msg False ''Email is already registered.''), db)"
    by (rule register_conflict [OF p1 True])
  have "text_of (r_email r2) \<in> set (map email (users db))" using True same by simp
  then have "register hash2 db r2 = (reply 200 (Msg False ''Email is already registered.''), db)"
    by (rule register_conflict [OF p2])
  moreover have "length (filter (\<lambda>u. email u = text_of (r_email r1)) (users db)) = 1"
    by (rule count_key_distinct [OF uniq True])
  ultimately show ?thesis by (simp add: r1)
next
  case False
  let ?db1 = "snd (register hash1 db r1)"
  have u: "users ?db1 = users db @
                   [\<lparr> user_id = next_user_id db, username = text_of (r_username r1),
                      email = text_of (r_email r1),
                      password = hash1 (text_of (r_password r1)),
                      role_id = Some (if r_role r1 = Some ''admin'' then 2 else 1) \<rparr>]"
    by (simp add: register_fresh [OF p1 False roles])
  then have "text_of (r_email r2) \<in> set (map email (users ?db1))" using same by simp
  then have "register hash2 ?db1 r2 =
      (reply 200 (Msg False ''Email is already registered.''), ?db1)"
    by (rule register_conflict [OF p2])
  moreover have "filter (\<lambda>u. email u = text_of (r_email r1)) (users db) = []"
    using False by (auto simp: filter_empty_conv image_iff)
  then have "length (filter (\<lambda>u. email u = text_of (r_email r1)) (users ?db1)) = 1"
    by (simp add: u)
  ultimately show ?thesis by simp
qed


theorem register_same_email_twice_witness:
  "\<not> falsy_str (r_username (signup ''bob'' ''bob@example.com'' ''customer''))
   \<and> \<not> falsy_str (r_email (signup ''bob'' ''bob@example.com'' ''customer''))
   \<and> \<not> falsy_str (r_password (signup ''bob'' ''bob@example.com'' ''customer''))
   \<and> \<not> falsy_str (r_role (signup ''bob'' ''bob@example.com'' ''customer''))
   \<and> r_email (signup ''bobby'' ''bob@example.com'' ''admin'')
       = r_email (signup ''bob'' ''bob@example.com'' ''customer'')
   \<and> {1, 2} \<subseteq> set (map fst (user_roles shop_db))
   \<and> distinct (map email (users shop_db))
   \<and> register demo_hash
        (snd (register demo_hash shop_db (signup ''bob'' ''bob@example.com'' ''customer'')))
        (signup ''bobby'' ''bob@example.com'' ''admin'') =
       (reply 200 (Msg False ''Email is already registered.''),
        snd (register demo_hash shop_db (signup ''bob'' ''bob@example.com'' ''customer'')))
   \<and> length (filter (\<lambda>u. email u = ''bob@example.com'')
         (users (snd (register demo_hash shop_db
                        (signup ''bob'' ''bob@example.com'' ''customer''))))) = 1"
proof -
  let ?r1 = "signup ''bob'' ''bob@example.com'' ''customer''"
  let ?r2 = "signup ''bobby'' ''bob@example.com'' ''admin''"
  have p1: "\<not> falsy_str (r_username ?r1)" "\<not> falsy_str (r_email ?r1)"
      "\<not> falsy_str (r_password ?r1)" "\<not> falsy_str (r_role ?r1)"
    and p2: "\<not> falsy_str (r_username ?r2)" "\<not> falsy_str (r_email ?r2)"
      "\<not> falsy_str (r_password ?r2)" "\<not> falsy_str (r_role ?r2)"
    and same: "r_email ?r2 = r_email ?r1"
    by (simp_all add: signup_def falsy_str_def)
  have roles: "{1, 2} \<subseteq> set (map fst (user_roles shop_db))"
    and uniq: "distinct (map email (users shop_db))"
    by (simp_all add: store_defs)
  have t: "text_of (r_email ?r1) = ''bob@example.com''"
    by (simp add: signup_def text_of_def)
  from register_same_email_twice [OF p1 p2 same roles uniq, of demo_hash demo_hash]
  show ?thesis using p1 same roles uniq by (simp add: t)
qed


text \<open>
  C10.  With the two roles of the seed data present, a register request with all fields
  present and an email no user has is answered with success, and the one user row it
  adds has \<open>role_id\<close> 2 if the role field is exactly \<open>admin\<close> and 1 for every other
  value of the field.
\<close>

theorem register_role_id:
  assumes present: "\<not> falsy_str (r_username req)" "\<not> falsy_str (r_email req)"
              "\<not> falsy_str (r_password req)" "\<not> falsy_str (r_role req)"
      and unused: "text_of (r_email req) \<notin> set (map email (users db))"
      and roles: "{1, 2} \<subseteq> set (map fst (user_roles db))"
  shows "register hash db req =
           (reply 200 (Msg True ''Registration successful.''),
            db \<lparr> next_user_id := next_user_id db + 1,
                 users := users db @
                   [\<lparr> user_id = next_user_id db, username = text_of (r_username req),
                      email = text_of (r_email req),
                      password = hash (text_of (r_password req)),
                      role_id = Some (if r_role req = Some ''admin'' then 2 else 1) \<rparr>] \<rparr>)"
  by (rule register_fresh [OF present unused roles])


theorem register_role_id_witness:
  "\<not> falsy_str (r_username (signup ''eve'' ''eve@example.com'' ''Admin''))
   \<and> \<not> falsy_str (r_email (signup ''eve'' ''eve@example.com'' ''Admin''))
   \<and> \<not> falsy_str (r_password (signup ''eve'' ''eve@example.com'' ''Admin''))
   \<and> \<not> falsy_str (r_role (signup ''eve'' ''eve@example.com'' ''Admin''))
   \<and> text_of (r_email (signup ''eve'' ''eve@example.com'' ''Admin''))
        \<notin> set (map email (users shop_db))
   \<and> {1, 2} \<subseteq> set (map fst (user_roles shop_db))
   \<and> map role_id (users (snd (register demo_hash shop_db
          (signup ''eve'' ''eve@example.com'' ''Admin'')))) = [Some 1, Some 1]
   \<and> map role_id (users (snd (register demo_hash shop_db
          (signup ''eve'' ''eve@example.com'' ''admin'')))) = [Some 1, Some 2]"
proof -
  have p: "\<not> falsy_str (r_username (signup ''eve'' ''eve@example.com'' role))"
      "\<not> falsy_str (r_email (signup ''eve'' ''eve@example.com'' role))"
      "\<not> falsy_str (r_password (signup ''eve'' ''eve@example.com'' role))"
    and unused: "text_of (r_email (signup ''eve'' ''eve@example.com'' role))
        \<notin> set (map email (users shop_db))" for role
    by (simp_all add: signup_def falsy_str_def text_of_def store_defs)
  have r: "\<not> falsy_str (r_role (signup ''eve'' ''eve@example.com'' ''Admin''))"
    "\<not> falsy_str (r_role (signup ''eve'' ''eve@example.com'' ''admin''))"
    by (simp_all add: signup_def falsy_str_def)
  have roles: "{1, 2} \<subseteq> set (map fst (user_roles shop_db))"
    by (simp add: store_defs)
  have u: "map role_id (users shop_db) = [Some 1]" by (simp add: store_defs)
  have "map role_id (users (snd (register demo_hash shop_db
          (signup ''eve'' ''eve@example.com'' ''Admin'')))) = [Some 1, Some 1]"
    by (simp add: register_role_id [OF p r(1) unused roles] u) (simp add: signup_def)
  moreover have "map role_id (users (snd (register demo_hash shop_db
          (signup ''eve'' ''eve@example.com'' ''admin'')))) = [Some 1, Some 2]"
    by (simp add: register_role_id [OF p r(2) unused roles] u) (simp add: signup_def)
  ultimately show ?thesis using p r(1) unused roles by blast
qed

lemma select_user_by_email_none:
  "\<forall>u \<in> set (users db). Some (email u) \<noteq> mail \<Longrightarrow> select_user_by_email mail db = []"
  by (simp add: select_user_by_email_def filter_empty_conv)

lemmas login_defs = login_def select_user_by_email_def toLowerCase_def toLowerCase_char_def
  reply_def signin_def demo_compare_def demo_hash_def Let_def

lemma alice_found:
  "select_user_by_email (Some ''alice@example.com'') shop_db =
     [(\<lparr> user_id = 1, username = ''alice'', email = ''alice@example.com'',
         password = ''#secret'', role_id = Some 1 \<rparr>, 1)]"
  by (simp add: select_user_by_email_def store_defs)


text \<open>
  Logins that carry a password.  One whose email no user has, and one whose email finds
  a user but whose password does not verify against that user's hash, get the same
  answer: status 200 with \<open>success: false\<close> and the message
  \<open>Invalid email or password.\<close>  One whose email finds a user and whose password
  verifies, but whose requested role is, letter case aside, not the name of the user's
  role (\<open>admin\<close> for role 2, \<open>customer\<close> otherwise, as in the seed data), is answered
  with the access-denied message naming the requested role.  No login changes the
  store.
\<close>

lemma login_with_password:
  "((\<forall>u \<in> set (users db). Some (email u) \<noteq> l_email req) \<longrightarrow>
      login compare db req = (reply 200 (Msg False ''Invalid email or password.''), db))
   \<and> (\<forall>user rid rest pw.
        select_user_by_email (l_email req) db = (user, rid) # rest
        \<and> l_password req = Some pw \<and> \<not> compare pw (password user) \<longrightarrow>
        login compare db req = (reply 200 (Msg False ''Invalid email or password.''), db))
   \<and> (\<forall>user rid rest pw role.
        select_user_by_email (l_email req) db = (user, rid) # rest
        \<and> l_password req = Some pw \<and> compare pw (password user)
        \<and> l_role req = Some role
        \<and> toLowerCase role \<noteq> (if rid = 2 then ''admin'' else ''customer'') \<longrightarrow>
        login compare db req =
          (reply 200 (Msg False (''Access denied: not a '' @ role @ ''.'')), db))
   \<and> snd (login compare db req) = db"
proof (intro conjI impI allI)
  assume "\<forall>u \<in> set (users db). Some (email u) \<noteq> l_email req"
  then have "select_user_by_email (l_email req) db = []"
    by (rule select_user_by_email_none)
  then show "login compare db req = (reply 200 (Msg False ''Invalid email or password.''), db)"
    by (simp add: login_def)
next
  fix user rid rest pw
  assume "select_user_by_email (l_email req) db = (user, rid) # rest
        \<and> l_password req = Some pw \<and> \<not> compare pw (password user)"
  then show "login compare db req = (reply 200 (Msg False ''Invalid email or password.''), db)"
    by (simp add: login_def)
next
  fix user rid rest pw role
  assume "select_user_by_email (l_email req) db = (user, rid) # rest
        \<and> l_password req = Some pw \<and> compare pw (password user)
        \<and> l_role req = Some role
        \<and> toLowerCase role \<noteq> (if rid = 2 then ''admin'' else ''customer'')"
  then show "login compare db req =
          (reply 200 (Msg False (''Access denied: not a '' @ role @ ''.'')), db)"
    by (auto simp add: login_def Let_def)
next
  show "snd (login compare db req) = db"
    by (simp add: login_def Let_def split: list.splits option.splits prod.splits)
qed

lemma login_with_password_examples:
  "login demo_compare shop_db (signin ''customer'' ''zed@example.com'' ''secret'') =
     (reply 200 (Msg False ''Invalid email or password.''), shop_db)
   \<and> login demo_compare shop_db (signin ''customer'' ''alice@example.com'' ''guess'') =
     (reply 200 (Msg False ''Invalid email or password.''), shop_db)
   \<and> login demo_compare shop_db (signin ''Admin'' ''alice@example.com'' ''secret'') =
     (reply 200 (Msg False ''Access denied: not a Admin.''), shop_db)"
proof -
  let ?u = "\<lparr> user_id = 1, username = ''alice'', email = ''alice@example.com'',
         password = ''#secret'', role_id = Some 1 \<rparr>"
  have none: "\<forall>u \<in> set (users shop_db).
      Some (email u) \<noteq> l_email (signin ''customer'' ''zed@example.com'' ''secret'')"
    by (simp add: signin_def store_defs)
  have wrong: "select_user_by_email
        (l_email (signin ''customer'' ''alice@example.com'' ''guess'')) shop_db = (?u, 1) # []
      \<and> l_password (signin ''customer'' ''alice@example.com'' ''guess'') = Some ''guess''
      \<and> \<not> demo_compare ''guess'' (password ?u)"
    by (simp add: signin_def alice_found demo_compare_def demo_hash_def)
  have role: "select_user_by_email
        (l_email (signin ''Admin'' ''alice@example.com'' ''secret'')) shop_db = (?u, 1) # []
      \<and> l_password (signin ''Admin'' ''alice@example.com'' ''secret'') = Some ''secret''
      \<and> demo_compare ''secret'' (password ?u)
      \<and> l_role (signin ''Admin'' ''alice@example.com'' ''secret'') = Some ''Admin''
      \<and> toLowerCase ''Admin'' \<noteq> (if (1::int) = 2 then ''admin'' else ''customer'')"
    by (simp add: signin_def alice_found demo_compare_def demo_hash_def toLowerCase_def
          toLowerCase_char_def)
  note a = login_with_password [of shop_db "signin ''customer'' ''zed@example.com'' ''secret''" demo_compare]
  note b = login_with_password [of shop_db "signin ''customer'' ''alice@example.com'' ''guess''" demo_compare]
  note c = login_with_password [of shop_db "signin ''Admin'' ''alice@example.com'' ''secret''" demo_compare]
  from a none have 1: "login demo_compare shop_db (signin ''customer'' ''zed@example.com'' ''secret'') =
     (reply 200 (Msg False ''Invalid email or password.''), shop_db)"
    by blast
  from b wrong have 2: "login demo_compare shop_db (signin ''customer'' ''alice@example.com'' ''guess'') =
     (reply 200 (Msg False ''Invalid email or password.''), shop_db)"
    by blast
  from c role have "login demo_compare shop_db (signin ''Admin'' ''alice@example.com'' ''secret'') =
     (reply 200 (Msg False (''Access denied: not a '' @ ''Admin'' @ ''.'')), shop_db)"
    by blast
  then have 3: "login demo_compare shop_db (signin ''Admin'' ''alice@example.com'' ''secret'') =
     (reply 200 (Msg False ''Access denied: not a Admin.''), shop_db)"
    by simp
  from 1 2 3 show ?thesis by blast
qed

text \<open>
  C7.  The claim's failing input: two logins without a password field, one for the
  email of a user and one for an email no user has.  The handler looks the email up
  before it touches the password, and \<open>bcrypt.compare\<close> raises on a password that is
  not a string: the first login is answered 500 \<open>Server error.\<close>, the second 200
  \<open>Invalid email or password.\<close>  The two causes of failure are told apart, and with
  them the emails that are registered.  Neither login changes the store.
\<close>

theorem login_absent_password:
  "login compare shop_db
     \<lparr> l_role = Some ''customer'', l_email = Some ''alice@example.com'', l_password = None \<rparr> =
     (reply 500 (Msg False ''Server error.''), shop_db)
   \<and> login compare shop_db
     \<lparr> l_role = Some ''customer'', l_email = Some ''zed@example.com'', l_password = None \<rparr> =
     (reply 200 (Msg False ''Invalid email or password.''), shop_db)"
  by (simp add: login_def select_user_by_email_def store_defs)


section \<open>Deleting a game and the order report: the claim\<close>














lemmas delete_defs = delete_game_def delete_order_items_of_def delete_from_games_def
  rollback_def reply_def sold_db_def item_row_def line_def
lemmas report_defs = get_orders_def order_rows_def status_name_of_def username_of_def
  title_of_def isnull_title_def Let_def

lemma delete_game_inventory_blocks:
  "delete_game shop_db 1 = (reply 500 (Msg False ''Failed to delete game.''), shop_db, RolledBack)"
  by (simp add: delete_defs store_defs)

lemma get_orders_sold_db:
  "get_orders sold_db =
     [\<lparr> r_order_id = 2, r_order_date = 9, r_total_amount = Some 5999,
        r_order_status = Some ''pending'', r_customer_name = None,
        r_order_item_id = Some 3, r_game_title = ''Halo'', r_quantity = Some 1,
        r_price = Some 5999 \<rparr>,
      \<lparr> r_order_id = 1, r_order_date = 5, r_total_amount = Some 7998,
        r_order_status = Some ''pending'', r_customer_name = Some ''alice'',
        r_order_item_id = Some 2, r_game_title = ''Doom'', r_quantity = Some 1,
        r_price = Some 1999 \<rparr>,
      \<lparr> r_order_id = 1, r_order_date = 5, r_total_amount = Some 7998,
        r_order_status = Some ''pending'', r_customer_name = Some ''alice'',
        r_order_item_id = Some 1, r_game_title = ''Halo'', r_quantity = Some 1,
        r_price = Some 5999 \<rparr>]"
  by (simp add: report_defs delete_defs store_defs)






end
